theory Spec2Isabelle
  imports Complex_Main "HOL-Library.AList" "HOL-Library.Sublist"
begin

section \<open>Python values handled by the script\<close>

text \<open>
  \<^verbatim>\<open>vault_awx_update_role_id.py\<close> reads a secret from Vault and writes it into the
  \<^verbatim>\<open>inputs\<close> of an AWX credential. Everything it receives from the two services is a
  decoded JSON document. A Python \<^verbatim>\<open>str\<close> is modelled by its UTF-8 bytes, a
  \<^verbatim>\<open>dict\<close> by an association list in insertion order (a decoded document has every
  key once; the lookup and the update below act on the first binding of a key), an
  \<^verbatim>\<open>int\<close> by \<open>int\<close>. A Python \<^verbatim>\<open>float\<close> is a real number, an infinity or a
  not-a-number; every double is one of them.
\<close>

datatype pyfloat = Finite real | Infinity bool | NaN

datatype json =
    JNull
  | JBool bool
  | JInt int
  | JFloat pyfloat
  | JStr string
  | JArr "json list"
  | JObj "(string \<times> json) list"

text \<open>
  The exceptions the script can meet. \<open>KeyError\<close>, \<open>TypeError\<close>, \<open>AttributeError\<close>
  and \<open>IndexError\<close> are raised by the interpreter on the script's own subscripts and
  \<^verbatim>\<open>.get\<close> calls; \<open>Raised\<close> is an exception object coming out of a library call
  (hvac, requests, getpass), known by its text. All of them are instances of
  \<^verbatim>\<open>Exception\<close>, so an \<^verbatim>\<open>except Exception\<close> clause catches them.
\<close>

datatype py_exn =
    KeyError json
  | TypeError
  | AttributeError
  | IndexError
  | Raised string

text \<open>Truth value of an object, as \<^verbatim>\<open>not x\<close> and \<^verbatim>\<open>x or y\<close> test it.\<close>

fun truthy :: "json \<Rightarrow> bool" where
  "truthy JNull = False"
| "truthy (JBool b) = b"
| "truthy (JInt n) = (n \<noteq> 0)"
| "truthy (JFloat f) = (f \<noteq> Finite 0)"
| "truthy (JStr s) = (s \<noteq> [])"
| "truthy (JArr xs) = (xs \<noteq> [])"
| "truthy (JObj m) = (m \<noteq> [])"

text \<open>
  An attribute of \<^verbatim>\<open>args\<close> is a \<^verbatim>\<open>str\<close> or \<^verbatim>\<open>None\<close>. \<open>fstr\<close> is what an
  f-string makes of it; \<open>lookup\<close> is a dictionary lookup with such a key (the keys of
  a decoded JSON object are strings, so \<^verbatim>\<open>None\<close> is never found).
\<close>

definition fstr :: "string option \<Rightarrow> string" where
  "fstr s = (case s of None \<Rightarrow> ''None'' | Some v \<Rightarrow> v)"

definition lookup :: "(string \<times> json) list \<Rightarrow> string option \<Rightarrow> json option" where
  "lookup m k = (case k of None \<Rightarrow> None | Some s \<Rightarrow> map_of m s)"

text \<open>\<^verbatim>\<open>x[k]\<close> for a string \<open>k\<close>: only a dict can be subscripted by a string.\<close>

definition py_getitem :: "json \<Rightarrow> string \<Rightarrow> py_exn + json" where
  "py_getitem x k =
     (case x of
        JObj m \<Rightarrow> (case map_of m k of None \<Rightarrow> Inl (KeyError (JStr k)) | Some v \<Rightarrow> Inr v)
      | _ \<Rightarrow> Inl TypeError)"

text \<open>
  \<^verbatim>\<open>x[0]\<close>: the first element of a list, the first character of a string (its
  leading byte and the continuation bytes after it), \<^verbatim>\<open>KeyError\<close> on a dict (no key
  of a decoded JSON object is the integer 0), \<^verbatim>\<open>TypeError\<close> on anything else.
\<close>

definition continuation_byte :: "char \<Rightarrow> bool" where
  "continuation_byte b = (128 \<le> (of_char b :: nat) \<and> (of_char b :: nat) < 192)"

definition py_getitem0 :: "json \<Rightarrow> py_exn + json" where
  "py_getitem0 x =
     (case x of
        JArr [] \<Rightarrow> Inl IndexError
      | JArr (y # ys) \<Rightarrow> Inr y
      | JStr [] \<Rightarrow> Inl IndexError
      | JStr (c # cs) \<Rightarrow> Inr (JStr (c # takeWhile continuation_byte cs))
      | JObj m \<Rightarrow> Inl (KeyError (JInt 0))
      | _ \<Rightarrow> Inl TypeError)"

text \<open>\<^verbatim>\<open>x.get(k, d)\<close>: only a dict has the method.\<close>

definition py_get :: "json \<Rightarrow> string option \<Rightarrow> json \<Rightarrow> py_exn + json" where
  "py_get x k d =
     (case x of
        JObj m \<Rightarrow> Inr (case lookup m k of None \<Rightarrow> d | Some v \<Rightarrow> v)
      | _ \<Rightarrow> Inl AttributeError)"

text \<open>
  \<^verbatim>\<open>x[k] = v\<close> for a string \<open>k\<close>: a dict rebinds the key in place or appends it;
  nothing else the JSON decoder returns accepts a string subscript.
\<close>

definition py_setitem :: "json \<Rightarrow> string \<Rightarrow> json \<Rightarrow> py_exn + json" where
  "py_setitem x k v =
     (case x of
        JObj m \<Rightarrow> Inr (JObj (AList.update k v m))
      | _ \<Rightarrow> Inl TypeError)"

text \<open>Sequencing of steps that may raise: the first exception is the result.\<close>

definition and_then :: "py_exn + 'a \<Rightarrow> ('a \<Rightarrow> py_exn + 'b) \<Rightarrow> py_exn + 'b" where
  "and_then r f = (case r of Inl e \<Rightarrow> Inl e | Inr v \<Rightarrow> f v)"

text \<open>
  \<^verbatim>\<open>str(n)\<close> of an integer is its decimal numeral. \<open>py_str\<close> is \<^verbatim>\<open>str\<close> on a
  decoded JSON value, as an f-string applies it; the text of a float, a list or a dict
  is Python's \<^verbatim>\<open>repr\<close>, taken as the parameter \<open>repr\<close>. (The JSON decoder never
  yields an integer beyond the interpreter's limit on the length of a numeral.)
\<close>

fun str_nat :: "nat \<Rightarrow> string" where
  "str_nat n =
     (if n < 10 then [char_of (48 + n)]
      else str_nat (n div 10) @ [char_of (48 + n mod 10)])"

declare str_nat.simps [simp del]

definition str_int :: "int \<Rightarrow> string" where
  "str_int i = (if i < 0 then CHR ''-'' # str_nat (nat (- i)) else str_nat (nat i))"

definition py_str :: "(json \<Rightarrow> string) \<Rightarrow> json \<Rightarrow> string" where
  "py_str repr v =
     (case v of
        JNull \<Rightarrow> ''None''
      | JBool b \<Rightarrow> (if b then ''True'' else ''False'')
      | JInt n \<Rightarrow> str_int n
      | JStr s \<Rightarrow> s
      | _ \<Rightarrow> repr v)"

section \<open>Configuration\<close>

text \<open>
  \<open>cmdline\<close> is the command line as argparse has accepted it: the value given to
  each flag, if any. \<open>parse_args\<close> (lines 30-41) falls back on the environment
  variable of a flag that was not given.
\<close>

record cmdline =
  opt_vault_addr :: "string option"
  opt_vault_secret :: "string option"
  opt_key :: "string option"
  opt_subkey :: "string option"
  opt_awx_url :: "string option"
  opt_cred_name :: "string option"
  opt_username :: "string option"
  opt_password :: "string option"
  opt_no_verify_tls :: bool

record args =
  vault_addr :: "string option"
  vault_secret :: "string option"
  key :: "string option"
  subkey :: "string option"
  awx_url :: "string option"
  cred_name :: "string option"
  username :: "string option"
  password :: "string option"
  no_verify_tls :: bool

definition flag_or_env :: "string option \<Rightarrow> string option \<Rightarrow> string option" where
  "flag_or_env flag dflt = (case flag of Some v \<Rightarrow> Some v | None \<Rightarrow> dflt)"

definition parse_args :: "cmdline \<Rightarrow> (string \<Rightarrow> string option) \<Rightarrow> args" where
  "parse_args c getenv =
     \<lparr> vault_addr = flag_or_env (opt_vault_addr c) (getenv ''VAULT_ADDR''),
       vault_secret = flag_or_env (opt_vault_secret c) (getenv ''VAULT_SECRET''),
       key = flag_or_env (opt_key c) (getenv ''VAULT_KEY''),
       subkey = flag_or_env (opt_subkey c) (getenv ''VAULT_SUBKEY''),
       awx_url = flag_or_env (opt_awx_url c) (getenv ''AWX_URL''),
       cred_name = flag_or_env (opt_cred_name c) (getenv ''AWX_CRED_NAME''),
       username = flag_or_env (opt_username c) (getenv ''VAULT_USERNAME''),
       password = flag_or_env (opt_password c) (getenv ''VAULT_PASSWORD''),
       no_verify_tls = opt_no_verify_tls c \<rparr>"

text \<open>
  The list \<^verbatim>\<open>required\<close> of line 48; each name comes with the attribute that
  \<^verbatim>\<open>getattr(args, param)\<close> reads.
\<close>

definition required :: "(string \<times> (args \<Rightarrow> string option)) list" where
  "required =
     [(''vault_addr'', vault_addr), (''vault_secret'', vault_secret), (''key'', key),
      (''subkey'', subkey), (''awx_url'', awx_url), (''cred_name'', cred_name),
      (''username'', username)]"

section \<open>Console output, calls and the outside world\<close>

text \<open>
  One constructor for each \<^verbatim>\<open>print\<close> of \<^verbatim>\<open>main\<close>, carrying the values its
  f-string interpolates (source line in brackets).
\<close>

datatype message =
    MissingParameter string            \<comment> \<open>[51] \<open>param\<close>\<close>
  | VaultAuthFailed                    \<comment> \<open>[62]\<close>
  | VaultAuthError py_exn              \<comment> \<open>[65]\<close>
  | FailedToRetrieve string string     \<comment> \<open>[74] \<open>args.key\<close>, \<open>args.subkey\<close>\<close>
  | RetrievedRoleId                    \<comment> \<open>[76]\<close>
  | ErrorReadingSecret py_exn          \<comment> \<open>[78]\<close>
  | CredentialNotFound string          \<comment> \<open>[92] \<open>args.cred_name\<close>\<close>
  | FoundCredential string json        \<comment> \<open>[95] \<open>args.cred_name\<close>, \<open>cred_id\<close>\<close>
  | ErrorFetchingCredential py_exn     \<comment> \<open>[97]\<close>
  | FailedToFetchDetails py_exn        \<comment> \<open>[107]\<close>
  | UpdateSucceeded string json        \<comment> \<open>[115] \<open>args.cred_name\<close>, \<open>cred_id\<close>\<close>
  | UpdateFailed int string            \<comment> \<open>[117] \<open>status_code\<close>, \<open>text\<close>\<close>
  | UpdateError py_exn                 \<comment> \<open>[119]\<close>

text \<open>
  The text of each line. The two markers are the UTF-8 bytes of U+274C and U+2705;
  \<open>str_exn\<close> is \<^verbatim>\<open>str\<close> on an exception object.
\<close>

definition cross_mark :: string where
  "cross_mark = [CHR 0xE2, CHR 0x9D, CHR 0x8C]"

definition check_mark :: string where
  "check_mark = [CHR 0xE2, CHR 0x9C, CHR 0x85]"

definition quoted :: "string \<Rightarrow> string" where
  "quoted s = [CHR 0x27] @ s @ [CHR 0x27]"

definition dashed :: "string \<Rightarrow> string" where
  \<comment> \<open>\<^verbatim>\<open>param.replace('_','-')\<close>\<close>
  "dashed s = map (\<lambda>c. if c = CHR ''_'' then CHR ''-'' else c) s"

fun render :: "(json \<Rightarrow> string) \<Rightarrow> (py_exn \<Rightarrow> string) \<Rightarrow> message \<Rightarrow> string" where
  "render repr str_exn (MissingParameter param) =
     cross_mark @ '' Missing required parameter: '' @ param @ ''. Use --'' @ dashed param
       @ '' or environment variable.''"
| "render repr str_exn VaultAuthFailed = cross_mark @ '' Vault authentication failed.''"
| "render repr str_exn (VaultAuthError e) = cross_mark @ '' Vault auth error: '' @ str_exn e"
| "render repr str_exn (FailedToRetrieve k sk) =
     cross_mark @ '' Failed to retrieve '' @ quoted (k @ ''.'' @ sk) @ '' from Vault.''"
| "render repr str_exn RetrievedRoleId = check_mark @ '' Retrieved role_id from Vault''"
| "render repr str_exn (ErrorReadingSecret e) =
     cross_mark @ '' Error reading Vault secret: '' @ str_exn e"
| "render repr str_exn (CredentialNotFound n) =
     cross_mark @ '' Credential '' @ quoted n @ '' not found.''"
| "render repr str_exn (FoundCredential n cred_id) =
     check_mark @ '' Found credential '' @ quoted n @ '' with ID '' @ py_str repr cred_id"
| "render repr str_exn (ErrorFetchingCredential e) =
     cross_mark @ '' Error fetching credential: '' @ str_exn e"
| "render repr str_exn (FailedToFetchDetails e) =
     cross_mark @ '' Failed to fetch credential details: '' @ str_exn e"
| "render repr str_exn (UpdateSucceeded n cred_id) =
     check_mark @ '' Successfully updated '' @ quoted ''role_id'' @ '' for credential ''
       @ quoted n @ '' (ID '' @ py_str repr cred_id @ '')''"
| "render repr str_exn (UpdateFailed status body) =
     cross_mark @ '' Failed to update credential: '' @ str_int status @ '' '' @ body"
| "render repr str_exn (UpdateError e) = cross_mark @ '' Error during update: '' @ str_exn e"

text \<open>
  A call on the \<^verbatim>\<open>requests\<close> session: the URL, the \<^verbatim>\<open>verify\<close> argument, the
  session's \<^verbatim>\<open>auth\<close> pair and the header the script sets on it, and the
  \<^verbatim>\<open>json=\<close> argument if there is one.
\<close>

record request =
  url :: string
  verify :: bool
  auth :: "string option \<times> string"
  headers :: "(string \<times> string) list"
  json_arg :: "json option"

text \<open>
  What the script reads of a response object: the two attributes and the results of the
  two methods (\<open>raise_for_status\<close> raises or returns; \<open>json_body\<close> is
  \<^verbatim>\<open>response.json()\<close>, which raises on a body that is not JSON).
\<close>

record response =
  status_code :: int
  text_body :: string
  raise_for_status :: "py_exn option"
  json_body :: "py_exn + json"

text \<open>
  What a run does, in order: the lines it prints, the password prompt, each call to
  Vault (on the client built from \<^verbatim>\<open>args.vault_addr\<close> and \<^verbatim>\<open>verify_tls\<close>) and each
  call to AWX, named by the statement that makes it, and the traceback of an exception
  that nothing catches.
\<close>

datatype event =
    Print message
  | Getpass string                                  \<comment> \<open>[55] the prompt\<close>
  | VaultLogin "string option" bool "string option" string
      \<comment> \<open>[58-60] client url, client verify, username, password\<close>
  | VaultIsAuthenticated                            \<comment> \<open>[61]\<close>
  | VaultRead "string option"                       \<comment> \<open>[70] path\<close>
  | FindGet request                                 \<comment> \<open>[88]\<close>
  | FetchGet request                                \<comment> \<open>[103]\<close>
  | UpdatePatch request                             \<comment> \<open>[113]\<close>
  | Traceback py_exn

text \<open>
  The outside world of one run: what each of the seven calls that leave the script
  answers. Every call is made at most once, so one answer per call covers every
  behaviour of the services.
\<close>

record world =
  getpass_result :: "py_exn + string"
  login_result :: "py_exn option"
  is_authenticated_result :: "py_exn + bool"
  read_secret_version_result :: "py_exn + json"
  find_result :: "py_exn + response"
  fetch_result :: "py_exn + response"
  patch_result :: "py_exn + response"

text \<open>
  A part of \<^verbatim>\<open>main\<close> yields the events it caused and either the exit status it
  ended the process with or the value the rest of \<^verbatim>\<open>main\<close> goes on with.
\<close>

type_synonym 'a proc = "event list \<times> (int + 'a)"

definition then_run :: "'a proc \<Rightarrow> ('a \<Rightarrow> 'b proc) \<Rightarrow> 'b proc" where
  "then_run m f =
     (case m of
        (t, Inl code) \<Rightarrow> (t, Inl code)
      | (t, Inr v) \<Rightarrow> (case f v of (t', r) \<Rightarrow> (t @ t', r)))"

record run =
  trace :: "event list"
  exit_code :: int

definition finish :: "unit proc \<Rightarrow> run" where
  \<comment> \<open>\<^verbatim>\<open>main\<close> returning ends the process with status 0\<close>
  "finish m = \<lparr> trace = fst m, exit_code = (case snd m of Inl code \<Rightarrow> code | Inr _ \<Rightarrow> 0) \<rparr>"

section \<open>The script\<close>

text \<open>Lines 48-52: the first required parameter that is \<^verbatim>\<open>None\<close> ends the run.\<close>

fun check_required :: "args \<Rightarrow> (string \<times> (args \<Rightarrow> string option)) list \<Rightarrow> unit proc" where
  "check_required a [] = ([], Inr ())"
| "check_required a ((param, attr) # rest) =
     (if attr a = None then ([Print (MissingParameter param)], Inl 1)
      else check_required a rest)"

text \<open>
  Line 55: \<^verbatim>\<open>args.password or getpass.getpass(...)\<close>. An exception of
  \<^verbatim>\<open>getpass\<close> is caught by nothing: traceback, exit status 1.
\<close>

definition prompt_text :: "args \<Rightarrow> string" where
  "prompt_text a = ''Enter Vault userpass password for '' @ fstr (username a) @ '': ''"

definition ask_password :: "world \<Rightarrow> args \<Rightarrow> string proc" where
  "ask_password w a =
     (case getpass_result w of
        Inl e \<Rightarrow> ([Getpass (prompt_text a), Traceback e], Inl 1)
      | Inr p \<Rightarrow> ([Getpass (prompt_text a)], Inr p))"

definition login_pass :: "world \<Rightarrow> args \<Rightarrow> string proc" where
  "login_pass w a =
     (case password a of
        None \<Rightarrow> ask_password w a
      | Some p \<Rightarrow> if p \<noteq> [] then ([], Inr p) else ask_password w a)"

text \<open>Lines 58-66: the Vault client and the userpass login.\<close>

definition vault_login :: "world \<Rightarrow> args \<Rightarrow> bool \<Rightarrow> string \<Rightarrow> unit proc" where
  "vault_login w a verify_tls pw =
     (let login = VaultLogin (vault_addr a) verify_tls (username a) pw in
      case login_result w of
        Some e \<Rightarrow> ([login, Print (VaultAuthError e)], Inl 1)
      | None \<Rightarrow>
          (case is_authenticated_result w of
             Inl e \<Rightarrow> ([login, VaultIsAuthenticated, Print (VaultAuthError e)], Inl 1)
           | Inr ok \<Rightarrow>
               if \<not> ok then ([login, VaultIsAuthenticated, Print VaultAuthFailed], Inl 1)
               else ([login, VaultIsAuthenticated], Inr ())))"

text \<open>
  Line 71: the secret document of the read response. Line 72: the two-level lookup in
  it, \<^verbatim>\<open>secret_data.get(args.key, {}).get(args.subkey)\<close>.
\<close>

definition secret_data_of :: "json \<Rightarrow> py_exn + json" where
  "secret_data_of read_response =
     and_then (py_getitem read_response ''data'') (\<lambda>d. py_getitem d ''data'')"

definition role_id_of :: "args \<Rightarrow> json \<Rightarrow> py_exn + json" where
  "role_id_of a secret_data =
     and_then (py_get secret_data (key a) (JObj [])) (\<lambda>entry. py_get entry (subkey a) JNull)"

text \<open>Lines 69-79.\<close>

definition read_secret :: "world \<Rightarrow> args \<Rightarrow> json proc" where
  "read_secret w a =
     (let call = VaultRead (vault_secret a) in
      case and_then (and_then (read_secret_version_result w) secret_data_of) (role_id_of a) of
        Inl e \<Rightarrow> ([call, Print (ErrorReadingSecret e)], Inl 1)
      | Inr role_id \<Rightarrow>
          if \<not> truthy role_id
          then ([call, Print (FailedToRetrieve (fstr (key a)) (fstr (subkey a)))], Inl 1)
          else ([call, Print RetrievedRoleId], Inr role_id))"

text \<open>Lines 82-84: the session; every call on it carries these.\<close>

definition session_request :: "args \<Rightarrow> bool \<Rightarrow> string \<Rightarrow> string \<Rightarrow> json option \<Rightarrow> request" where
  "session_request a verify_tls pw u j =
     \<lparr> url = u, verify = verify_tls, auth = (username a, pw),
       headers = [(''Content-Type'', ''application/json'')], json_arg = j \<rparr>"

text \<open>Lines 87-98.\<close>

definition find_url :: "args \<Rightarrow> string" where
  "find_url a = fstr (awx_url a) @ ''/api/v2/credentials/?name='' @ fstr (cred_name a)"

definition results_of :: "response \<Rightarrow> py_exn + json" where
  \<comment> \<open>lines 89-90\<close>
  "results_of resp =
     (case raise_for_status resp of
        Some e \<Rightarrow> Inl e
      | None \<Rightarrow> and_then (json_body resp) (\<lambda>doc. py_get doc (Some ''results'') (JArr [])))"

definition first_id :: "json \<Rightarrow> py_exn + json" where
  \<comment> \<open>line 94: \<^verbatim>\<open>results[0]["id"]\<close>\<close>
  "first_id results = and_then (py_getitem0 results) (\<lambda>r. py_getitem r ''id'')"

definition find_credential :: "world \<Rightarrow> args \<Rightarrow> bool \<Rightarrow> string \<Rightarrow> json proc" where
  "find_credential w a verify_tls pw =
     (let call = FindGet (session_request a verify_tls pw (find_url a) None) in
      case and_then (find_result w) results_of of
        Inl e \<Rightarrow> ([call, Print (ErrorFetchingCredential e)], Inl 1)
      | Inr results \<Rightarrow>
          if \<not> truthy results
          then ([call, Print (CredentialNotFound (fstr (cred_name a)))], Inl 1)
          else
            (case first_id results of
               Inl e \<Rightarrow> ([call, Print (ErrorFetchingCredential e)], Inl 1)
             | Inr cred_id \<Rightarrow>
                 ([call, Print (FoundCredential (fstr (cred_name a)) cred_id)], Inr cred_id)))"

text \<open>Lines 101-108.\<close>

definition cred_url :: "(json \<Rightarrow> string) \<Rightarrow> args \<Rightarrow> json \<Rightarrow> string" where
  "cred_url repr a cred_id =
     fstr (awx_url a) @ ''/api/v2/credentials/'' @ py_str repr cred_id @ ''/''"

definition current_inputs_of :: "response \<Rightarrow> py_exn + json" where
  \<comment> \<open>lines 104-105\<close>
  "current_inputs_of resp =
     (case raise_for_status resp of
        Some e \<Rightarrow> Inl e
      | None \<Rightarrow> and_then (json_body resp) (\<lambda>doc. py_get doc (Some ''inputs'') (JObj [])))"

definition fetch_inputs ::
  "(json \<Rightarrow> string) \<Rightarrow> world \<Rightarrow> args \<Rightarrow> bool \<Rightarrow> string \<Rightarrow> json \<Rightarrow> json proc" where
  "fetch_inputs repr w a verify_tls pw cred_id =
     (let call = FetchGet (session_request a verify_tls pw (cred_url repr a cred_id) None) in
      case and_then (fetch_result w) current_inputs_of of
        Inl e \<Rightarrow> ([call, Print (FailedToFetchDetails e)], Inl 1)
      | Inr current_inputs \<Rightarrow> ([call], Inr current_inputs))"

text \<open>
  Lines 111-119. The assignment of line 111 stands outside every \<^verbatim>\<open>try\<close>: on
  \<^verbatim>\<open>inputs\<close> that are not a dict its \<^verbatim>\<open>TypeError\<close> ends the run with a traceback
  and exit status 1. After the \<^verbatim>\<open>patch\<close> call every path returns from \<^verbatim>\<open>main\<close>.
\<close>

definition update_role_id ::
  "(json \<Rightarrow> string) \<Rightarrow> world \<Rightarrow> args \<Rightarrow> bool \<Rightarrow> string \<Rightarrow> json \<Rightarrow> json \<Rightarrow> json \<Rightarrow> unit proc"
  where
  "update_role_id repr w a verify_tls pw role_id cred_id current_inputs =
     (case py_setitem current_inputs ''role_id'' role_id of
        Inl e \<Rightarrow> ([Traceback e], Inl 1)
      | Inr merged \<Rightarrow>
          (let call = UpdatePatch (session_request a verify_tls pw (cred_url repr a cred_id)
                        (Some (JObj [(''inputs'', merged)]))) in
           case patch_result w of
             Inl e \<Rightarrow> ([call, Print (UpdateError e)], Inr ())
           | Inr patch_resp \<Rightarrow>
               if status_code patch_resp = 200 \<or> status_code patch_resp = 202
               then ([call, Print (UpdateSucceeded (fstr (cred_name a)) cred_id)], Inr ())
               else ([call, Print (UpdateFailed (status_code patch_resp) (text_body patch_resp))],
                     Inr ())))"

text \<open>
  \<^verbatim>\<open>main\<close>, lines 43-119: \<open>body\<close> is everything after \<^verbatim>\<open>parse_args\<close>, one step
  after the other; a step that exits ends the run.
\<close>

definition body :: "(json \<Rightarrow> string) \<Rightarrow> world \<Rightarrow> args \<Rightarrow> unit proc" where
  "body repr w a =
     (let verify_tls = \<not> no_verify_tls a in
      then_run (check_required a required) (\<lambda>_.
      then_run (login_pass w a) (\<lambda>pw.
      then_run (vault_login w a verify_tls pw) (\<lambda>_.
      then_run (read_secret w a) (\<lambda>role_id.
      then_run (find_credential w a verify_tls pw) (\<lambda>cred_id.
      then_run (fetch_inputs repr w a verify_tls pw cred_id) (\<lambda>current_inputs.
      update_role_id repr w a verify_tls pw role_id cred_id current_inputs)))))))"

definition main :: "(json \<Rightarrow> string) \<Rightarrow> world \<Rightarrow> cmdline \<Rightarrow> (string \<Rightarrow> string option) \<Rightarrow> run" where
  "main repr w c getenv = finish (body repr w (parse_args c getenv))"

section \<open>Vocabulary of the properties\<close>

text \<open>The \<^verbatim>\<open>json=\<close> arguments of the update calls of a trace, in order.\<close>

definition update_bodies :: "event list \<Rightarrow> json option list" where
  "update_bodies t = concat (map (\<lambda>e. case e of UpdatePatch req \<Rightarrow> [json_arg req] | _ \<Rightarrow> []) t)"

text \<open>The calls that go to AWX.\<close>

fun platform_call :: "event \<Rightarrow> bool" where
  "platform_call (FindGet _) = True"
| "platform_call (FetchGet _) = True"
| "platform_call (UpdatePatch _) = True"
| "platform_call _ = False"

text \<open>
  The two-level lookup resolves to a value when it returns and what it returns is not
  \<^verbatim>\<open>None\<close>.
\<close>

definition resolved :: "py_exn + json \<Rightarrow> bool" where
  "resolved r = (case r of Inl _ \<Rightarrow> False | Inr v \<Rightarrow> v \<noteq> JNull)"

section \<open>An example run\<close>

text \<open>
  Every parameter given on the command line; Vault holds
  \<^verbatim>\<open>{"credentials": {"role_id": "X"}}\<close>, AWX knows one credential of that name, with
  id 7 and inputs \<^verbatim>\<open>{"a": 1, "b": 2}\<close>, and accepts the update.
\<close>

definition ex_cmdline :: cmdline where
  "ex_cmdline =
     \<lparr> opt_vault_addr = Some ''https://vault'', opt_vault_secret = Some ''secret/user1'',
       opt_key = Some ''credentials'', opt_subkey = Some ''role_id'',
       opt_awx_url = Some ''https://awx'', opt_cred_name = Some ''my-credential'',
       opt_username = Some ''alice'', opt_password = Some ''pw'', opt_no_verify_tls = False \<rparr>"

definition ok_response :: "json \<Rightarrow> response" where
  "ok_response doc =
     \<lparr> status_code = 200, text_body = [], raise_for_status = None, json_body = Inr doc \<rparr>"

definition ex_world :: world where
  "ex_world =
     \<lparr> getpass_result = Inr ''typed'',
       login_result = None,
       is_authenticated_result = Inr True,
       read_secret_version_result =
         Inr (JObj [(''data'', JObj [(''data'',
                JObj [(''credentials'', JObj [(''role_id'', JStr ''X'')])])])]),
       find_result = Inr (ok_response (JObj [(''count'', JInt 1),
                (''results'', JArr [JObj [(''id'', JInt 7), (''name'', JStr ''my-credential'')]])])),
       fetch_result = Inr (ok_response (JObj [(''id'', JInt 7),
                (''inputs'', JObj [(''a'', JInt 1), (''b'', JInt 2)])])),
       patch_result = Inr (ok_response (JObj [])) \<rparr>"

definition ex_session :: "string \<Rightarrow> json option \<Rightarrow> request" where
  "ex_session u j =
     \<lparr> url = u, verify = True, auth = (Some ''alice'', ''pw''),
       headers = [(''Content-Type'', ''application/json'')], json_arg = j \<rparr>"


section \<open>Facts about the steps\<close>

lemma sublistI: "ys = ps @ xs @ ss \<Longrightarrow> sublist xs ys"
  by (auto simp: sublist_def)

lemma fst_then_run:
  "fst (then_run m f) = (case snd m of Inl code \<Rightarrow> fst m | Inr v \<Rightarrow> fst m @ fst (f v))"
  by (cases m) (auto simp: then_run_def split: sum.splits prod.splits)

lemma snd_then_run:
  "snd (then_run m f) = (case snd m of Inl code \<Rightarrow> Inl code | Inr v \<Rightarrow> snd (f v))"
  by (cases m) (auto simp: then_run_def split: sum.splits prod.splits)

lemma in_then_run:
  "e \<in> set (fst (then_run m f)) \<longleftrightarrow>
     e \<in> set (fst m) \<or> (\<exists>v. snd m = Inr v \<and> e \<in> set (fst (f v)))"
  by (auto simp: fst_then_run split: sum.splits)

lemma trace_main: "trace (main repr w c getenv) = fst (body repr w (parse_args c getenv))"
  by (simp add: main_def finish_def)

lemma exit_code_main:
  "exit_code (main repr w c getenv) =
     (case snd (body repr w (parse_args c getenv)) of Inl code \<Rightarrow> code | Inr _ \<Rightarrow> 0)"
  by (simp add: main_def finish_def)

subsection \<open>What each step emits\<close>

lemma check_required_events:
  "e \<in> set (fst (check_required a ps)) \<Longrightarrow> \<exists>p. e = Print (MissingParameter p)"
  by (induction ps) (auto split: if_splits)

lemma login_pass_events:
  "e \<in> set (fst (login_pass w a)) \<Longrightarrow> e = Getpass (prompt_text a) \<or> (\<exists>x. e = Traceback x)"
  by (auto simp: login_pass_def ask_password_def split: option.splits sum.splits if_splits)

lemma vault_login_events:
  "e \<in> set (fst (vault_login w a v pw)) \<Longrightarrow>
     e = VaultLogin (vault_addr a) v (username a) pw \<or> e = VaultIsAuthenticated \<or> (\<exists>m. e = Print m)"
  by (auto simp: vault_login_def Let_def split: option.splits sum.splits if_splits)

lemma read_secret_events:
  "e \<in> set (fst (read_secret w a)) \<Longrightarrow> e = VaultRead (vault_secret a) \<or> (\<exists>m. e = Print m)"
  by (auto simp: read_secret_def Let_def split: option.splits sum.splits if_splits)

lemma find_credential_events:
  "e \<in> set (fst (find_credential w a v pw)) \<Longrightarrow>
     e = FindGet (session_request a v pw (find_url a) None) \<or> (\<exists>m. e = Print m)"
  by (auto simp: find_credential_def Let_def split: option.splits sum.splits if_splits)

lemma fetch_inputs_events:
  "e \<in> set (fst (fetch_inputs repr w a v pw cid)) \<Longrightarrow>
     e = FetchGet (session_request a v pw (cred_url repr a cid) None) \<or> (\<exists>m. e = Print m)"
  by (auto simp: fetch_inputs_def Let_def split: option.splits sum.splits if_splits)

lemma update_role_id_events:
  "e \<in> set (fst (update_role_id repr w a v pw rid cid ci)) \<Longrightarrow>
     (\<exists>merged. py_setitem ci ''role_id'' rid = Inr merged \<and>
        e = UpdatePatch (session_request a v pw (cred_url repr a cid)
              (Some (JObj [(''inputs'', merged)]))))
     \<or> (\<exists>m. e = Print m) \<or> (\<exists>x. e = Traceback x)"
  by (auto simp: update_role_id_def Let_def split: option.splits sum.splits if_splits)

subsection \<open>When a step lets the run go on\<close>

lemma check_required_Inr:
  "snd (check_required a ps) = Inr u \<longleftrightarrow> (\<forall>(p, f) \<in> set ps. f a \<noteq> None)"
  by (induction ps) (auto split: if_splits)

lemma check_required_Inr_fst:
  "snd (check_required a ps) = Inr u \<Longrightarrow> fst (check_required a ps) = []"
  by (induction ps) (auto split: if_splits)

lemma check_required_first:
  "\<forall>(n, h) \<in> set pre. h a \<noteq> None \<Longrightarrow> f a = None \<Longrightarrow>
     check_required a (pre @ (p, f) # post) = ([Print (MissingParameter p)], Inl 1)"
  by (induction pre) auto

lemma login_pass_Inr:
  "snd (login_pass w a) = Inr pw \<Longrightarrow>
     (password a = Some pw \<and> pw \<noteq> [] \<and> fst (login_pass w a) = []) \<or>
     ((password a = None \<or> password a = Some []) \<and> getpass_result w = Inr pw \<and>
        fst (login_pass w a) = [Getpass (prompt_text a)])"
  by (auto simp: login_pass_def ask_password_def split: option.splits sum.splits if_splits)

lemma vault_login_Inr:
  "snd (vault_login w a v pw) = Inr u \<longleftrightarrow>
     login_result w = None \<and> is_authenticated_result w = Inr True"
  by (auto simp: vault_login_def Let_def split: option.splits sum.splits if_splits)

lemma vault_login_Inr_fst:
  "snd (vault_login w a v pw) = Inr u \<Longrightarrow>
     fst (vault_login w a v pw) = [VaultLogin (vault_addr a) v (username a) pw, VaultIsAuthenticated]"
  by (auto simp: vault_login_def Let_def split: option.splits sum.splits if_splits)

lemma read_secret_Inr:
  "snd (read_secret w a) = Inr rid \<longleftrightarrow>
     (\<exists>rr sd. read_secret_version_result w = Inr rr \<and> secret_data_of rr = Inr sd \<and>
        role_id_of a sd = Inr rid) \<and> truthy rid"
  by (auto simp: read_secret_def Let_def and_then_def split: option.splits sum.splits if_splits)

lemma read_secret_Inr_fst:
  "snd (read_secret w a) = Inr rid \<Longrightarrow>
     fst (read_secret w a) = [VaultRead (vault_secret a), Print RetrievedRoleId]"
  by (auto simp: read_secret_def Let_def split: option.splits sum.splits if_splits)

lemma find_credential_Inr:
  "snd (find_credential w a v pw) = Inr cid \<longleftrightarrow>
     (\<exists>resp results. find_result w = Inr resp \<and> results_of resp = Inr results \<and>
        truthy results \<and> first_id results = Inr cid)"
  by (auto simp: find_credential_def Let_def and_then_def split: option.splits sum.splits if_splits)

lemma find_credential_Inr_fst:
  "snd (find_credential w a v pw) = Inr cid \<Longrightarrow>
     fst (find_credential w a v pw) =
       [FindGet (session_request a v pw (find_url a) None),
        Print (FoundCredential (fstr (cred_name a)) cid)]"
  by (auto simp: find_credential_def Let_def split: option.splits sum.splits if_splits)

lemma fetch_inputs_Inr:
  "snd (fetch_inputs repr w a v pw cid) = Inr ci \<longleftrightarrow>
     (\<exists>resp. fetch_result w = Inr resp \<and> current_inputs_of resp = Inr ci)"
  by (auto simp: fetch_inputs_def Let_def and_then_def split: option.splits sum.splits if_splits)

lemma fetch_inputs_Inr_fst:
  "snd (fetch_inputs repr w a v pw cid) = Inr ci \<Longrightarrow>
     fst (fetch_inputs repr w a v pw cid) =
       [FetchGet (session_request a v pw (cred_url repr a cid) None)]"
  by (auto simp: fetch_inputs_def Let_def split: option.splits sum.splits if_splits)

subsection \<open>How far a run got\<close>

lemma reach_login:
  assumes "VaultLogin va v u pw \<in> set (fst (body repr w a))"
  shows "snd (check_required a required) = Inr () \<and> snd (login_pass w a) = Inr pw \<and>
         va = vault_addr a \<and> v = (\<not> no_verify_tls a) \<and> u = username a"
  using assms unfolding body_def Let_def in_then_run
  by (auto dest: check_required_events login_pass_events vault_login_events read_secret_events
      find_credential_events fetch_inputs_events update_role_id_events)

lemma reach_read:
  assumes "VaultRead p \<in> set (fst (body repr w a))"
  shows "\<exists>pw. snd (check_required a required) = Inr () \<and> snd (login_pass w a) = Inr pw \<and>
           snd (vault_login w a (\<not> no_verify_tls a) pw) = Inr ()"
  using assms unfolding body_def Let_def in_then_run
  by (auto dest: check_required_events login_pass_events vault_login_events read_secret_events
      find_credential_events fetch_inputs_events update_role_id_events)

lemma reach_find:
  assumes "FindGet req \<in> set (fst (body repr w a))"
  shows "\<exists>pw rid. snd (check_required a required) = Inr () \<and> snd (login_pass w a) = Inr pw \<and>
           snd (vault_login w a (\<not> no_verify_tls a) pw) = Inr () \<and>
           snd (read_secret w a) = Inr rid \<and>
           req = session_request a (\<not> no_verify_tls a) pw (find_url a) None"
  using assms unfolding body_def Let_def in_then_run
  by (auto dest: check_required_events login_pass_events vault_login_events read_secret_events
      find_credential_events fetch_inputs_events update_role_id_events)

lemma reach_fetch:
  assumes "FetchGet req \<in> set (fst (body repr w a))"
  shows "\<exists>pw rid cid. snd (check_required a required) = Inr () \<and>
           snd (login_pass w a) = Inr pw \<and>
           snd (vault_login w a (\<not> no_verify_tls a) pw) = Inr () \<and>
           snd (read_secret w a) = Inr rid \<and>
           snd (find_credential w a (\<not> no_verify_tls a) pw) = Inr cid \<and>
           req = session_request a (\<not> no_verify_tls a) pw (cred_url repr a cid) None"
  using assms unfolding body_def Let_def in_then_run
  by (auto dest: check_required_events login_pass_events vault_login_events read_secret_events
      find_credential_events fetch_inputs_events update_role_id_events)

lemma reach_update:
  assumes "UpdatePatch req \<in> set (fst (body repr w a))"
  shows "\<exists>pw rid cid ci merged. snd (check_required a required) = Inr () \<and>
           snd (login_pass w a) = Inr pw \<and>
           snd (vault_login w a (\<not> no_verify_tls a) pw) = Inr () \<and>
           snd (read_secret w a) = Inr rid \<and>
           snd (find_credential w a (\<not> no_verify_tls a) pw) = Inr cid \<and>
           snd (fetch_inputs repr w a (\<not> no_verify_tls a) pw cid) = Inr ci \<and>
           py_setitem ci ''role_id'' rid = Inr merged \<and>
           req = session_request a (\<not> no_verify_tls a) pw (cred_url repr a cid)
                   (Some (JObj [(''inputs'', merged)]))"
  using assms unfolding body_def Let_def in_then_run
  by (auto dest: check_required_events login_pass_events vault_login_events read_secret_events
      find_credential_events fetch_inputs_events update_role_id_events)


lemma vault_login_call:
  "VaultLogin (vault_addr a) v (username a) pw \<in> set (fst (vault_login w a v pw))"
  by (auto simp: vault_login_def Let_def split: option.splits sum.splits)

lemma fetch_inputs_call:
  "FetchGet (session_request a v pw (cred_url repr a cid) None)
     \<in> set (fst (fetch_inputs repr w a v pw cid))"
  by (auto simp: fetch_inputs_def Let_def split: sum.splits)

lemma getpass_in_body:
  "Getpass q \<in> set (fst (body repr w a)) \<Longrightarrow> Getpass q \<in> set (fst (login_pass w a))"
  unfolding body_def Let_def in_then_run
  by (auto dest: check_required_events vault_login_events read_secret_events
      find_credential_events fetch_inputs_events update_role_id_events)

lemma then_run_unfold:
  "then_run m f =
     (case snd m of Inl code \<Rightarrow> (fst m, Inl code) | Inr v \<Rightarrow> (fst m @ fst (f v), snd (f v)))"
  by (cases m) (auto simp: then_run_def split: sum.splits prod.splits)

lemma login_pass_fst:
  "snd (login_pass w a) = Inr pw \<Longrightarrow>
     fst (login_pass w a) = [] \<or> fst (login_pass w a) = [Getpass (prompt_text a)]"
  by (auto dest: login_pass_Inr)


subsection \<open>The example run, evaluated\<close>

lemmas run_defs =
  main_def body_def finish_def then_run_def parse_args_def flag_or_env_def required_def
  login_pass_def ask_password_def vault_login_def read_secret_def secret_data_of_def
  role_id_of_def find_credential_def results_of_def first_id_def fetch_inputs_def
  current_inputs_of_def update_role_id_def session_request_def find_url_def cred_url_def
  prompt_text_def and_then_def py_get_def py_getitem_def py_getitem0_def py_setitem_def
  lookup_def fstr_def py_str_def Let_def

lemmas ex_defs = ex_world_def ex_cmdline_def ok_response_def ex_session_def

lemma str_int_7: "str_int 7 = ''7''"
  by code_simp

lemma str_int_8: "str_int 8 = ''8''"
  by code_simp

lemma str_int_400: "str_int 400 = ''400''"
  by code_simp

lemma ex_run:
  "main repr ex_world ex_cmdline (\<lambda>_. None) =
     \<lparr> trace =
         [VaultLogin (Some ''https://vault'') True (Some ''alice'') ''pw'',
          VaultIsAuthenticated,
          VaultRead (Some ''secret/user1''),
          Print RetrievedRoleId,
          FindGet (ex_session ''https://awx/api/v2/credentials/?name=my-credential'' None),
          Print (FoundCredential ''my-credential'' (JInt 7)),
          FetchGet (ex_session ''https://awx/api/v2/credentials/7/'' None),
          UpdatePatch (ex_session ''https://awx/api/v2/credentials/7/''
            (Some (JObj [(''inputs'',
               JObj [(''a'', JInt 1), (''b'', JInt 2), (''role_id'', JStr ''X'')])]))),
          Print (UpdateSucceeded ''my-credential'' (JInt 7))],
       exit_code = 0 \<rparr>"
  by (simp add: run_defs ex_defs str_int_7)

section \<open>The claims\<close>

subsection \<open>C1: the merge keeps every other input\<close>

text \<open>
  C1 says that the submitted update body is the fetched inputs mapping with
  \<^verbatim>\<open>role_id\<close> rebound. In the example run the fetched inputs are
  \<^verbatim>\<open>{"a": 1, "b": 2}\<close> and the role-id is \<^verbatim>\<open>"X"\<close>; the one update call carries the
  body \<^verbatim>\<open>{"inputs": {"a": 1, "b": 2, "role_id": "X"}}\<close>, which is not the mapping
  \<^verbatim>\<open>{"a": 1, "b": 2, "role_id": "X"}\<close> itself (line 113 wraps it).
\<close>

theorem merge_body_counterexample:
  "update_bodies (trace (main (\<lambda>_. []) ex_world ex_cmdline (\<lambda>_. None))) =
     [Some (JObj [(''inputs'',
        JObj [(''a'', JInt 1), (''b'', JInt 2), (''role_id'', JStr ''X'')])])]
   \<and> update_bodies (trace (main (\<lambda>_. []) ex_world ex_cmdline (\<lambda>_. None))) \<noteq>
     [Some (JObj [(''a'', JInt 1), (''b'', JInt 2), (''role_id'', JStr ''X'')])]"
  by (simp add: ex_run update_bodies_def ex_session_def)

text \<open>
  C1, amended: for every fetched inputs mapping and every role-id value retrieved from
  Vault, the run submits exactly one update, and its body is the single-key document
  \<^verbatim>\<open>{"inputs": m}\<close>, where \<open>m\<close> is the fetched mapping with \<^verbatim>\<open>role_id\<close> bound to the
  retrieved value and every other key bound as it was fetched (a key that was there
  keeps its place; \<^verbatim>\<open>role_id\<close> is appended if it was not).
\<close>

theorem merge_preserves_inputs:
  assumes "FetchGet req \<in> set (trace (main repr w c getenv))"
    and "fetch_result w = Inr fetched"
    and "current_inputs_of fetched = Inr (JObj inputs)"
  shows "\<exists>rr sd rid. read_secret_version_result w = Inr rr \<and> secret_data_of rr = Inr sd
           \<and> role_id_of (parse_args c getenv) sd = Inr rid
           \<and> update_bodies (trace (main repr w c getenv)) =
               [Some (JObj [(''inputs'', JObj (AList.update ''role_id'' rid inputs))])]
           \<and> map_of (AList.update ''role_id'' rid inputs) = (map_of inputs)(''role_id'' \<mapsto> rid)"
proof -
  let ?a = "parse_args c getenv"
  let ?v = "\<not> no_verify_tls ?a"
  from assms(1) obtain pw rid cid where ok:
    "snd (check_required ?a required) = Inr ()"
    "snd (login_pass w ?a) = Inr pw"
    "snd (vault_login w ?a ?v pw) = Inr ()"
    "snd (read_secret w ?a) = Inr rid"
    "snd (find_credential w ?a ?v pw) = Inr cid"
    unfolding trace_main by (blast dest: reach_fetch)
  from ok(4) obtain rr sd where rd: "read_secret_version_result w = Inr rr"
    "secret_data_of rr = Inr sd" "role_id_of ?a sd = Inr rid"
    by (auto simp: read_secret_Inr)
  let ?body = "Some (JObj [(''inputs'', JObj (AList.update ''role_id'' rid inputs))])"
  have ok6: "snd (fetch_inputs repr w ?a ?v pw cid) = Inr (JObj inputs)"
    using assms(2,3) by (simp add: fetch_inputs_Inr)
  have "\<exists>m. update_role_id repr w ?a ?v pw rid cid (JObj inputs) =
      ([UpdatePatch (session_request ?a ?v pw (cred_url repr ?a cid) ?body), Print m], Inr ())"
  proof (cases "patch_result w")
    case (Inl e)
    then show ?thesis
      by (simp add: update_role_id_def py_setitem_def)
  next
    case (Inr patched)
    then show ?thesis
      by (cases "status_code patched = 200 \<or> status_code patched = 202")
        (simp_all add: update_role_id_def py_setitem_def)
  qed
  then obtain m where u: "update_role_id repr w ?a ?v pw rid cid (JObj inputs) =
      ([UpdatePatch (session_request ?a ?v pw (cred_url repr ?a cid) ?body), Print m], Inr ())" ..
  have t: "fst (body repr w ?a) =
      fst (login_pass w ?a) @
        [VaultLogin (vault_addr ?a) ?v (username ?a) pw, VaultIsAuthenticated,
         VaultRead (vault_secret ?a), Print RetrievedRoleId,
         FindGet (session_request ?a ?v pw (find_url ?a) None),
         Print (FoundCredential (fstr (cred_name ?a)) cid),
         FetchGet (session_request ?a ?v pw (cred_url repr ?a cid) None),
         UpdatePatch (session_request ?a ?v pw (cred_url repr ?a cid) ?body), Print m]"
    using ok ok6 u
    by (simp add: body_def Let_def fst_then_run check_required_Inr_fst vault_login_Inr_fst
        read_secret_Inr_fst find_credential_Inr_fst fetch_inputs_Inr_fst)
  have "update_bodies (fst (body repr w ?a)) = [?body]"
    using login_pass_fst [OF ok(2)] unfolding t
    by (auto simp: update_bodies_def session_request_def)
  with rd show ?thesis
    by (simp add: main_def finish_def update_conv')
qed

theorem merge_preserves_inputs_witness:
  "\<exists>rr sd rid. read_secret_version_result ex_world = Inr rr \<and> secret_data_of rr = Inr sd
     \<and> role_id_of (parse_args ex_cmdline (\<lambda>_. None)) sd = Inr rid
     \<and> update_bodies (trace (main (\<lambda>_. []) ex_world ex_cmdline (\<lambda>_. None))) =
         [Some (JObj [(''inputs'',
            JObj (AList.update ''role_id'' rid [(''a'', JInt 1), (''b'', JInt 2)]))])]
     \<and> map_of (AList.update ''role_id'' rid [(''a'', JInt 1), (''b'', JInt 2)]) =
         (map_of [(''a'', JInt 1), (''b'', JInt 2)])(''role_id'' \<mapsto> rid)"
proof -
  let ?fetched = "ok_response (JObj [(''id'', JInt 7),
                (''inputs'', JObj [(''a'', JInt 1), (''b'', JInt 2)])])"
  have h1: "FetchGet (ex_session ''https://awx/api/v2/credentials/7/'' None)
      \<in> set (trace (main (\<lambda>_. []) ex_world ex_cmdline (\<lambda>_. None)))"
    by (simp add: ex_run)
  have h2: "fetch_result ex_world = Inr ?fetched"
    by (simp add: ex_world_def)
  have h3: "current_inputs_of ?fetched = Inr (JObj [(''a'', JInt 1), (''b'', JInt 2)])"
    by (simp add: current_inputs_of_def ok_response_def and_then_def py_get_def lookup_def)
  from merge_preserves_inputs [OF h1 h2 h3] show ?thesis .
qed

subsection \<open>C2: a missing required parameter\<close>

text \<open>
  C2 says that the message names each required field that is absent. With no flag and
  no environment variable \<^verbatim>\<open>username\<close> is absent, and the single line printed names
  \<^verbatim>\<open>vault_addr\<close>: the loop of lines 49-52 exits at the first absent field.
\<close>

theorem missing_parameter_counterexample:
  "username (parse_args \<lparr> opt_vault_addr = None, opt_vault_secret = None, opt_key = None,
       opt_subkey = None, opt_awx_url = None, opt_cred_name = None, opt_username = None,
       opt_password = None, opt_no_verify_tls = False \<rparr> (\<lambda>_. None)) = None
   \<and> trace (main (\<lambda>_. []) ex_world \<lparr> opt_vault_addr = None, opt_vault_secret = None,
       opt_key = None, opt_subkey = None, opt_awx_url = None, opt_cred_name = None,
       opt_username = None, opt_password = None, opt_no_verify_tls = False \<rparr> (\<lambda>_. None)) =
     [Print (MissingParameter ''vault_addr'')]
   \<and> \<not> sublist ''username'' (render (\<lambda>_. []) (\<lambda>_. []) (MissingParameter ''vault_addr''))"
  by (simp add: run_defs cross_mark_def dashed_def sublist_Cons_right prefix_Cons)

text \<open>
  C2, amended: if a required field is absent and every field before it in the list
  \<^verbatim>\<open>required\<close> is present, the run prints the missing-parameter line naming that
  field (the field and its flag) and nothing else, and exits with status 1; the trace
  has no call to Vault or AWX and no prompt.
\<close>

theorem first_missing_parameter:
  assumes "required = pre @ (p, f) # post"
    and "\<forall>(n, h) \<in> set pre. h (parse_args c getenv) \<noteq> None"
    and "f (parse_args c getenv) = None"
  shows "trace (main repr w c getenv) = [Print (MissingParameter p)]
       \<and> exit_code (main repr w c getenv) = 1
       \<and> sublist p (render repr str_exn (MissingParameter p))
       \<and> sublist (''--'' @ dashed p) (render repr str_exn (MissingParameter p))"
proof -
  have "check_required (parse_args c getenv) required = ([Print (MissingParameter p)], Inl 1)"
    unfolding assms(1) using assms(2,3) by (rule check_required_first)
  then have "body repr w (parse_args c getenv) = ([Print (MissingParameter p)], Inl 1)"
    by (simp add: body_def then_run_def)
  moreover have "sublist p (render repr str_exn (MissingParameter p))"
    by (rule sublistI [where ps = "cross_mark @ '' Missing required parameter: ''"
          and ss = "''. Use --'' @ dashed p @ '' or environment variable.''"]) simp
  moreover have "sublist (''--'' @ dashed p) (render repr str_exn (MissingParameter p))"
    by (rule sublistI [where ps = "cross_mark @ '' Missing required parameter: '' @ p @ ''. Use ''"
          and ss = "'' or environment variable.''"]) simp
  ultimately show ?thesis by (simp add: main_def finish_def)
qed

theorem first_missing_parameter_witness:
  "trace (main (\<lambda>_. []) ex_world (ex_cmdline\<lparr>opt_vault_secret := None\<rparr>) (\<lambda>_. None)) =
     [Print (MissingParameter ''vault_secret'')]
   \<and> exit_code (main (\<lambda>_. []) ex_world (ex_cmdline\<lparr>opt_vault_secret := None\<rparr>) (\<lambda>_. None)) = 1
   \<and> sublist ''vault_secret'' (render (\<lambda>_. []) (\<lambda>_. []) (MissingParameter ''vault_secret''))
   \<and> sublist (''--'' @ dashed ''vault_secret'')
       (render (\<lambda>_. []) (\<lambda>_. []) (MissingParameter ''vault_secret''))"
proof -
  have h1: "required = [(''vault_addr'', vault_addr)] @ (''vault_secret'', vault_secret) #
      [(''key'', key), (''subkey'', subkey), (''awx_url'', awx_url),
       (''cred_name'', cred_name), (''username'', username)]"
    by (simp add: required_def)
  have h2: "\<forall>(n, h) \<in> set [(''vault_addr'', vault_addr)].
      h (parse_args (ex_cmdline\<lparr>opt_vault_secret := None\<rparr>) (\<lambda>_. None)) \<noteq> None"
    by (simp add: parse_args_def flag_or_env_def ex_cmdline_def)
  have h3: "vault_secret (parse_args (ex_cmdline\<lparr>opt_vault_secret := None\<rparr>) (\<lambda>_. None)) = None"
    by (simp add: parse_args_def flag_or_env_def ex_cmdline_def)
  from first_missing_parameter [OF h1 h2 h3] show ?thesis .
qed

subsection \<open>C3: no secret, no request to AWX\<close>

text \<open>
  C3: when the secret has been read and the two-level lookup in the secret document
  does not resolve to a value (it raises, or it yields \<^verbatim>\<open>None\<close>), the run ends with
  exit status 1 on one of the two failure lines of the read step (lines 74 and 78: the
  lookup yielded \<^verbatim>\<open>None\<close>, or it raised), and the trace has no call to AWX.
\<close>

theorem secret_not_found_aborts:
  assumes "VaultRead path \<in> set (trace (main repr w c getenv))"
    and "read_secret_version_result w = Inr rr"
    and "secret_data_of rr = Inr sd"
    and "\<not> resolved (role_id_of (parse_args c getenv) sd)"
  shows "exit_code (main repr w c getenv) = 1
       \<and> last (trace (main repr w c getenv)) =
           Print (case role_id_of (parse_args c getenv) sd of
                    Inl e \<Rightarrow> ErrorReadingSecret e
                  | Inr _ \<Rightarrow> FailedToRetrieve (fstr (key (parse_args c getenv)))
                               (fstr (subkey (parse_args c getenv))))
       \<and> filter platform_call (trace (main repr w c getenv)) = []"
proof -
  let ?a = "parse_args c getenv"
  let ?m = "case role_id_of ?a sd of
              Inl e \<Rightarrow> ErrorReadingSecret e
            | Inr _ \<Rightarrow> FailedToRetrieve (fstr (key ?a)) (fstr (subkey ?a))"
  from assms(1) obtain pw where ok:
    "snd (check_required ?a required) = Inr ()"
    "snd (login_pass w ?a) = Inr pw"
    "snd (vault_login w ?a (\<not> no_verify_tls ?a) pw) = Inr ()"
    unfolding trace_main by (blast dest: reach_read)
  have rs: "read_secret w ?a = ([VaultRead (vault_secret ?a), Print ?m], Inl 1)"
    using assms(2-4)
    by (auto simp: read_secret_def resolved_def and_then_def Let_def split: sum.splits)
  have b: "body repr w ?a =
      (fst (login_pass w ?a) @
         [VaultLogin (vault_addr ?a) (\<not> no_verify_tls ?a) (username ?a) pw,
          VaultIsAuthenticated, VaultRead (vault_secret ?a), Print ?m], Inl 1)"
    using ok rs
    by (simp add: body_def Let_def then_run_unfold check_required_Inr_fst vault_login_Inr_fst)
  from login_pass_fst [OF ok(2)] b show ?thesis
    by (auto simp: main_def finish_def)
qed

theorem secret_not_found_aborts_witness:
  "exit_code (main (\<lambda>_. []) (ex_world\<lparr>read_secret_version_result :=
       Inr (JObj [(''data'', JObj [(''data'', JObj [(''other'', JObj [])])])])\<rparr>)
       ex_cmdline (\<lambda>_. None)) = 1
   \<and> last (trace (main (\<lambda>_. []) (ex_world\<lparr>read_secret_version_result :=
       Inr (JObj [(''data'', JObj [(''data'', JObj [(''other'', JObj [])])])])\<rparr>)
       ex_cmdline (\<lambda>_. None))) = Print (FailedToRetrieve ''credentials'' ''role_id'')
   \<and> filter platform_call (trace (main (\<lambda>_. []) (ex_world\<lparr>read_secret_version_result :=
       Inr (JObj [(''data'', JObj [(''data'', JObj [(''other'', JObj [])])])])\<rparr>)
       ex_cmdline (\<lambda>_. None))) = []"
proof -
  let ?w = "ex_world\<lparr>read_secret_version_result :=
       Inr (JObj [(''data'', JObj [(''data'', JObj [(''other'', JObj [])])])])\<rparr>"
  have h1: "VaultRead (Some ''secret/user1'') \<in> set (trace (main (\<lambda>_. []) ?w ex_cmdline (\<lambda>_. None)))"
    by (simp add: run_defs ex_defs)
  have h2: "read_secret_version_result ?w =
      Inr (JObj [(''data'', JObj [(''data'', JObj [(''other'', JObj [])])])])"
    by simp
  have h3: "secret_data_of (JObj [(''data'', JObj [(''data'', JObj [(''other'', JObj [])])])]) =
      Inr (JObj [(''other'', JObj [])])"
    by (simp add: secret_data_of_def and_then_def py_getitem_def)
  have r: "role_id_of (parse_args ex_cmdline (\<lambda>_. None)) (JObj [(''other'', JObj [])]) = Inr JNull"
    by (simp add: role_id_of_def and_then_def py_get_def lookup_def parse_args_def
        flag_or_env_def ex_cmdline_def)
  have h4: "\<not> resolved (role_id_of (parse_args ex_cmdline (\<lambda>_. None)) (JObj [(''other'', JObj [])]))"
    by (simp add: r resolved_def)
  have k: "fstr (key (parse_args ex_cmdline (\<lambda>_. None))) = ''credentials''"
    "fstr (subkey (parse_args ex_cmdline (\<lambda>_. None))) = ''role_id''"
    by (simp_all add: parse_args_def flag_or_env_def ex_cmdline_def fstr_def)
  from secret_not_found_aborts [OF h1 h2 h3 h4] show ?thesis
    by (simp add: r k)
qed

subsection \<open>C4: no credential of that name\<close>

text \<open>
  C4: when the find-by-name call is made and its response holds an empty list of
  results, the run ends with exit status 1 on the line "Credential ... not found"; the
  find call is the only call to AWX in the trace, so nothing is fetched or updated.
\<close>

theorem no_matching_record_aborts:
  assumes "FindGet req \<in> set (trace (main repr w c getenv))"
    and "find_result w = Inr resp"
    and "results_of resp = Inr (JArr [])"
  shows "exit_code (main repr w c getenv) = 1
       \<and> last (trace (main repr w c getenv)) =
           Print (CredentialNotFound (fstr (cred_name (parse_args c getenv))))
       \<and> filter platform_call (trace (main repr w c getenv)) = [FindGet req]"
proof -
  let ?a = "parse_args c getenv"
  let ?v = "\<not> no_verify_tls ?a"
  from assms(1) obtain pw rid where ok:
    "snd (check_required ?a required) = Inr ()"
    "snd (login_pass w ?a) = Inr pw"
    "snd (vault_login w ?a ?v pw) = Inr ()"
    "snd (read_secret w ?a) = Inr rid"
    and req: "req = session_request ?a ?v pw (find_url ?a) None"
    unfolding trace_main by (blast dest: reach_find)
  have fc: "find_credential w ?a ?v pw =
      ([FindGet req, Print (CredentialNotFound (fstr (cred_name ?a)))], Inl 1)"
    using assms(2,3) req by (simp add: find_credential_def and_then_def)
  have b: "body repr w ?a =
      (fst (login_pass w ?a) @
         [VaultLogin (vault_addr ?a) ?v (username ?a) pw, VaultIsAuthenticated,
          VaultRead (vault_secret ?a), Print RetrievedRoleId,
          FindGet req, Print (CredentialNotFound (fstr (cred_name ?a)))], Inl 1)"
    using ok fc
    by (simp add: body_def Let_def then_run_unfold check_required_Inr_fst vault_login_Inr_fst
        read_secret_Inr_fst)
  from login_pass_fst [OF ok(2)] b show ?thesis
    by (auto simp: main_def finish_def)
qed

theorem no_matching_record_aborts_witness:
  "exit_code (main (\<lambda>_. []) (ex_world\<lparr>find_result :=
       Inr (ok_response (JObj [(''count'', JInt 0), (''results'', JArr [])]))\<rparr>)
       ex_cmdline (\<lambda>_. None)) = 1
   \<and> last (trace (main (\<lambda>_. []) (ex_world\<lparr>find_result :=
       Inr (ok_response (JObj [(''count'', JInt 0), (''results'', JArr [])]))\<rparr>)
       ex_cmdline (\<lambda>_. None))) = Print (CredentialNotFound ''my-credential'')
   \<and> filter platform_call (trace (main (\<lambda>_. []) (ex_world\<lparr>find_result :=
       Inr (ok_response (JObj [(''count'', JInt 0), (''results'', JArr [])]))\<rparr>)
       ex_cmdline (\<lambda>_. None))) =
     [FindGet (ex_session ''https://awx/api/v2/credentials/?name=my-credential'' None)]"
proof -
  let ?w = "ex_world\<lparr>find_result :=
       Inr (ok_response (JObj [(''count'', JInt 0), (''results'', JArr [])]))\<rparr>"
  have h1: "FindGet (ex_session ''https://awx/api/v2/credentials/?name=my-credential'' None)
      \<in> set (trace (main (\<lambda>_. []) ?w ex_cmdline (\<lambda>_. None)))"
    by (simp add: run_defs ex_defs)
  have h2: "find_result ?w =
      Inr (ok_response (JObj [(''count'', JInt 0), (''results'', JArr [])]))"
    by simp
  have h3: "results_of (ok_response (JObj [(''count'', JInt 0), (''results'', JArr [])])) =
      Inr (JArr [])"
    by (simp add: results_of_def ok_response_def and_then_def py_get_def lookup_def)
  have k: "fstr (cred_name (parse_args ex_cmdline (\<lambda>_. None))) = ''my-credential''"
    by (simp add: parse_args_def flag_or_env_def ex_cmdline_def fstr_def)
  from no_matching_record_aborts [OF h1 h2 h3] show ?thesis
    by (simp add: k)
qed

subsection \<open>C5: a rejected update is reported, and the exit status stays 0\<close>

text \<open>
  C5: when the update call is made and answers with a status other than 200 and 202,
  the last line printed is the failure line of line 117, whose text contains the status
  code (in decimal) and the text of the response body, and the exit status is 0.
\<close>

theorem update_failure_reported:
  assumes "UpdatePatch req \<in> set (trace (main repr w c getenv))"
    and "patch_result w = Inr resp"
    and "status_code resp \<noteq> 200"
    and "status_code resp \<noteq> 202"
  shows "exit_code (main repr w c getenv) = 0
       \<and> last (trace (main repr w c getenv)) =
           Print (UpdateFailed (status_code resp) (text_body resp))
       \<and> sublist (str_int (status_code resp))
           (render repr str_exn (UpdateFailed (status_code resp) (text_body resp)))
       \<and> sublist (text_body resp)
           (render repr str_exn (UpdateFailed (status_code resp) (text_body resp)))"
proof -
  let ?a = "parse_args c getenv"
  let ?v = "\<not> no_verify_tls ?a"
  from assms(1) obtain pw rid cid ci merged where ok:
    "snd (check_required ?a required) = Inr ()"
    "snd (login_pass w ?a) = Inr pw"
    "snd (vault_login w ?a ?v pw) = Inr ()"
    "snd (read_secret w ?a) = Inr rid"
    "snd (find_credential w ?a ?v pw) = Inr cid"
    "snd (fetch_inputs repr w ?a ?v pw cid) = Inr ci"
    and m: "py_setitem ci ''role_id'' rid = Inr merged"
    unfolding trace_main by (blast dest: reach_update)
  have u: "update_role_id repr w ?a ?v pw rid cid ci =
      ([UpdatePatch (session_request ?a ?v pw (cred_url repr ?a cid)
          (Some (JObj [(''inputs'', merged)]))),
        Print (UpdateFailed (status_code resp) (text_body resp))], Inr ())"
    using m assms(2-4) by (simp add: update_role_id_def)
  have "snd (body repr w ?a) = Inr ()"
    using ok u by (simp add: body_def Let_def snd_then_run)
  moreover have "last (fst (body repr w ?a)) =
      Print (UpdateFailed (status_code resp) (text_body resp))"
    using ok u by (simp add: body_def Let_def fst_then_run)
  moreover have "sublist (str_int (status_code resp))
      (render repr str_exn (UpdateFailed (status_code resp) (text_body resp)))"
    by (rule sublistI [where ps = "cross_mark @ '' Failed to update credential: ''"
          and ss = "'' '' @ text_body resp"]) simp
  moreover have "sublist (text_body resp)
      (render repr str_exn (UpdateFailed (status_code resp) (text_body resp)))"
    by (rule sublistI [where ps = "cross_mark @ '' Failed to update credential: ''
          @ str_int (status_code resp) @ '' ''" and ss = "[]"]) simp
  ultimately show ?thesis
    by (simp add: main_def finish_def)
qed

theorem update_failure_reported_witness:
  "exit_code (main (\<lambda>_. []) (ex_world\<lparr>patch_result :=
       Inr \<lparr>status_code = 400, text_body = ''Bad Request'',
            raise_for_status = Some (Raised ''400 Client Error''),
            json_body = Inr (JObj [(''detail'', JStr ''bad'')])\<rparr>\<rparr>)
       ex_cmdline (\<lambda>_. None)) = 0
   \<and> last (trace (main (\<lambda>_. []) (ex_world\<lparr>patch_result :=
       Inr \<lparr>status_code = 400, text_body = ''Bad Request'',
            raise_for_status = Some (Raised ''400 Client Error''),
            json_body = Inr (JObj [(''detail'', JStr ''bad'')])\<rparr>\<rparr>)
       ex_cmdline (\<lambda>_. None))) = Print (UpdateFailed 400 ''Bad Request'')
   \<and> sublist ''400'' (render (\<lambda>_. []) (\<lambda>_. []) (UpdateFailed 400 ''Bad Request''))
   \<and> sublist ''Bad Request''
       (render (\<lambda>_. []) (\<lambda>_. []) (UpdateFailed 400 ''Bad Request''))"
proof -
  let ?r = "\<lparr>status_code = 400, text_body = ''Bad Request'',
            raise_for_status = Some (Raised ''400 Client Error''),
            json_body = Inr (JObj [(''detail'', JStr ''bad'')])\<rparr>"
  let ?w = "ex_world\<lparr>patch_result := Inr ?r\<rparr>"
  have h1: "UpdatePatch (ex_session ''https://awx/api/v2/credentials/7/''
      (Some (JObj [(''inputs'',
         JObj [(''a'', JInt 1), (''b'', JInt 2), (''role_id'', JStr ''X'')])])))
      \<in> set (trace (main (\<lambda>_. []) ?w ex_cmdline (\<lambda>_. None)))"
    by (simp add: run_defs ex_defs str_int_7)
  have h2: "patch_result ?w = Inr ?r"
    by simp
  have h3: "status_code ?r \<noteq> 200" and h4: "status_code ?r \<noteq> 202"
    by simp_all
  from update_failure_reported [OF h1 h2 h3 h4, where str_exn = "\<lambda>_. []"] show ?thesis
    by (simp add: str_int_400)
qed

subsection \<open>C6: the successful run\<close>

text \<open>
  C6: in a run that logs in to Vault, where the login succeeds, the lookup yields a
  (truthy) value, the find call returns a list of one or more records whose first has
  the numeric id \<open>n\<close>, the fetch returns a record with an inputs mapping and the update
  answers 200, the exit status is 0 and the last line printed is the success line of
  line 115, whose text contains the credential name and the decimal numeral of \<open>n\<close>.
\<close>

theorem successful_run:
  assumes "VaultLogin va v u pw \<in> set (trace (main repr w c getenv))"
    and "login_result w = None"
    and "is_authenticated_result w = Inr True"
    and "read_secret_version_result w = Inr rr"
    and "secret_data_of rr = Inr sd"
    and "role_id_of (parse_args c getenv) sd = Inr rid"
    and "truthy rid"
    and "find_result w = Inr found"
    and "results_of found = Inr (JArr (r # rs))"
    and "py_getitem r ''id'' = Inr (JInt n)"
    and "fetch_result w = Inr fetched"
    and "current_inputs_of fetched = Inr (JObj inputs)"
    and "patch_result w = Inr patched"
    and "status_code patched = 200"
  shows "exit_code (main repr w c getenv) = 0
       \<and> last (trace (main repr w c getenv)) =
           Print (UpdateSucceeded (fstr (cred_name (parse_args c getenv))) (JInt n))
       \<and> sublist (fstr (cred_name (parse_args c getenv)))
           (render repr str_exn
              (UpdateSucceeded (fstr (cred_name (parse_args c getenv))) (JInt n)))
       \<and> sublist (str_int n)
           (render repr str_exn
              (UpdateSucceeded (fstr (cred_name (parse_args c getenv))) (JInt n)))"
proof -
  let ?a = "parse_args c getenv"
  let ?v = "\<not> no_verify_tls ?a"
  let ?name = "fstr (cred_name ?a)"
  from assms(1) have ok1:
    "snd (check_required ?a required) = Inr ()" "snd (login_pass w ?a) = Inr pw"
    unfolding trace_main by (auto dest: reach_login)
  have ok2: "snd (vault_login w ?a ?v pw) = Inr ()"
    using assms(2,3) by (simp add: vault_login_Inr)
  have ok3: "snd (read_secret w ?a) = Inr rid"
    using assms(4-7) by (simp add: read_secret_Inr)
  have "first_id (JArr (r # rs)) = Inr (JInt n)"
    using assms(10) by (simp add: first_id_def py_getitem0_def and_then_def)
  then have ok4: "snd (find_credential w ?a ?v pw) = Inr (JInt n)"
    using assms(8,9) by (simp add: find_credential_Inr)
  have ok5: "snd (fetch_inputs repr w ?a ?v pw (JInt n)) = Inr (JObj inputs)"
    using assms(11,12) by (simp add: fetch_inputs_Inr)
  have u: "update_role_id repr w ?a ?v pw rid (JInt n) (JObj inputs) =
      ([UpdatePatch (session_request ?a ?v pw (cred_url repr ?a (JInt n))
          (Some (JObj [(''inputs'', JObj (AList.update ''role_id'' rid inputs))]))),
        Print (UpdateSucceeded ?name (JInt n))], Inr ())"
    using assms(13,14) by (simp add: update_role_id_def py_setitem_def)
  have "snd (body repr w ?a) = Inr ()"
    using ok1 ok2 ok3 ok4 ok5 u by (simp add: body_def Let_def snd_then_run)
  moreover have "last (fst (body repr w ?a)) = Print (UpdateSucceeded ?name (JInt n))"
    using ok1 ok2 ok3 ok4 ok5 u by (simp add: body_def Let_def fst_then_run)
  moreover have "sublist ?name (render repr str_exn (UpdateSucceeded ?name (JInt n)))"
    by (rule sublistI [where ps = "check_mark @ '' Successfully updated '' @ quoted ''role_id''
          @ '' for credential '' @ [CHR 0x27]"
          and ss = "[CHR 0x27] @ '' (ID '' @ py_str repr (JInt n) @ '')''"])
      (simp add: quoted_def)
  moreover have "sublist (str_int n) (render repr str_exn (UpdateSucceeded ?name (JInt n)))"
    by (rule sublistI [where ps = "check_mark @ '' Successfully updated '' @ quoted ''role_id''
          @ '' for credential '' @ quoted ?name @ '' (ID ''" and ss = "'')''"])
      (simp add: py_str_def)
  ultimately show ?thesis
    by (simp add: main_def finish_def)
qed

theorem successful_run_witness:
  "exit_code (main (\<lambda>_. []) ex_world ex_cmdline (\<lambda>_. None)) = 0
   \<and> last (trace (main (\<lambda>_. []) ex_world ex_cmdline (\<lambda>_. None))) =
       Print (UpdateSucceeded ''my-credential'' (JInt 7))
   \<and> sublist ''my-credential''
       (render (\<lambda>_. []) (\<lambda>_. []) (UpdateSucceeded ''my-credential'' (JInt 7)))
   \<and> sublist ''7'' (render (\<lambda>_. []) (\<lambda>_. []) (UpdateSucceeded ''my-credential'' (JInt 7)))"
proof -
  let ?rec = "JObj [(''id'', JInt 7), (''name'', JStr ''my-credential'')]"
  have h1: "VaultLogin (Some ''https://vault'') True (Some ''alice'') ''pw''
      \<in> set (trace (main (\<lambda>_. []) ex_world ex_cmdline (\<lambda>_. None)))"
    by (simp add: ex_run)
  have h2: "login_result ex_world = None"
    and h3: "is_authenticated_result ex_world = Inr True"
    and h4: "read_secret_version_result ex_world =
      Inr (JObj [(''data'', JObj [(''data'',
             JObj [(''credentials'', JObj [(''role_id'', JStr ''X'')])])])])"
    and h8: "find_result ex_world =
      Inr (ok_response (JObj [(''count'', JInt 1), (''results'', JArr [?rec])]))"
    and h11: "fetch_result ex_world = Inr (ok_response (JObj [(''id'', JInt 7),
                (''inputs'', JObj [(''a'', JInt 1), (''b'', JInt 2)])]))"
    and h13: "patch_result ex_world = Inr (ok_response (JObj []))"
    by (simp_all add: ex_world_def)
  have h5: "secret_data_of (JObj [(''data'', JObj [(''data'',
             JObj [(''credentials'', JObj [(''role_id'', JStr ''X'')])])])]) =
      Inr (JObj [(''credentials'', JObj [(''role_id'', JStr ''X'')])])"
    by (simp add: secret_data_of_def and_then_def py_getitem_def)
  have h6: "role_id_of (parse_args ex_cmdline (\<lambda>_. None))
      (JObj [(''credentials'', JObj [(''role_id'', JStr ''X'')])]) = Inr (JStr ''X'')"
    by (simp add: role_id_of_def and_then_def py_get_def lookup_def parse_args_def
        flag_or_env_def ex_cmdline_def)
  have h7: "truthy (JStr ''X'')"
    by simp
  have h9: "results_of (ok_response (JObj [(''count'', JInt 1), (''results'', JArr [?rec])])) =
      Inr (JArr (?rec # []))"
    by (simp add: results_of_def ok_response_def and_then_def py_get_def lookup_def)
  have h10: "py_getitem ?rec ''id'' = Inr (JInt 7)"
    by (simp add: py_getitem_def)
  have h12: "current_inputs_of (ok_response (JObj [(''id'', JInt 7),
                (''inputs'', JObj [(''a'', JInt 1), (''b'', JInt 2)])])) =
      Inr (JObj [(''a'', JInt 1), (''b'', JInt 2)])"
    by (simp add: current_inputs_of_def ok_response_def and_then_def py_get_def lookup_def)
  have h14: "status_code (ok_response (JObj [])) = 200"
    by (simp add: ok_response_def)
  have k: "fstr (cred_name (parse_args ex_cmdline (\<lambda>_. None))) = ''my-credential''"
    by (simp add: parse_args_def flag_or_env_def ex_cmdline_def fstr_def)
  from successful_run [OF h1 h2 h3 h4 h5 h6 h7 h8 h9 h10 h11 h12 h13 h14, where str_exn = "\<lambda>_. []"]
  show ?thesis
    by (simp add: k str_int_7)
qed

subsection \<open>C7: the first match wins\<close>

text \<open>
  C7: when the find-by-name response holds a list of one or more results, every later
  call to AWX in the run, the fetch and the update, goes to the URL
  \<^verbatim>\<open>{awx_url}/api/v2/credentials/{id}/\<close> written with the \<^verbatim>\<open>id\<close> of the first result
  of that list; and when the find call is made and the first result has an \<^verbatim>\<open>id\<close>,
  the fetch is made, to that URL.
\<close>

theorem first_match_wins:
  assumes "find_result w = Inr found"
    and "results_of found = Inr (JArr (r # rs))"
  shows "(\<forall>req. FetchGet req \<in> set (trace (main repr w c getenv))
               \<or> UpdatePatch req \<in> set (trace (main repr w c getenv)) \<longrightarrow>
            (\<exists>cred_id. py_getitem r ''id'' = Inr cred_id
               \<and> url req = fstr (awx_url (parse_args c getenv)) @ ''/api/v2/credentials/''
                             @ py_str repr cred_id @ ''/''))
       \<and> (\<forall>found_req cred_id. FindGet found_req \<in> set (trace (main repr w c getenv))
               \<and> py_getitem r ''id'' = Inr cred_id \<longrightarrow>
            (\<exists>req. FetchGet req \<in> set (trace (main repr w c getenv))
               \<and> url req = fstr (awx_url (parse_args c getenv)) @ ''/api/v2/credentials/''
                             @ py_str repr cred_id @ ''/''))"
proof (intro conjI allI impI)
  let ?a = "parse_args c getenv"
  let ?v = "\<not> no_verify_tls ?a"
  fix req
  assume "FetchGet req \<in> set (trace (main repr w c getenv))
      \<or> UpdatePatch req \<in> set (trace (main repr w c getenv))"
  then obtain pw cid j where
    f: "snd (find_credential w ?a ?v pw) = Inr cid"
    and q: "req = session_request ?a ?v pw (cred_url repr ?a cid) j"
    unfolding trace_main by (blast dest: reach_fetch reach_update)
  from f assms have "first_id (JArr (r # rs)) = Inr cid"
    by (auto simp: find_credential_Inr)
  then have "py_getitem r ''id'' = Inr cid"
    by (simp add: first_id_def py_getitem0_def and_then_def)
  with q show "\<exists>cred_id. py_getitem r ''id'' = Inr cred_id
      \<and> url req = fstr (awx_url ?a) @ ''/api/v2/credentials/'' @ py_str repr cred_id @ ''/''"
    by (simp add: session_request_def cred_url_def)
next
  let ?a = "parse_args c getenv"
  let ?v = "\<not> no_verify_tls ?a"
  fix found_req cred_id
  assume h: "FindGet found_req \<in> set (trace (main repr w c getenv))
      \<and> py_getitem r ''id'' = Inr cred_id"
  then obtain pw rid where ok:
    "snd (check_required ?a required) = Inr ()"
    "snd (login_pass w ?a) = Inr pw"
    "snd (vault_login w ?a ?v pw) = Inr ()"
    "snd (read_secret w ?a) = Inr rid"
    unfolding trace_main by (blast dest: reach_find)
  from h have "first_id (JArr (r # rs)) = Inr cred_id"
    by (simp add: first_id_def py_getitem0_def and_then_def)
  with assms have ok5: "snd (find_credential w ?a ?v pw) = Inr cred_id"
    by (simp add: find_credential_Inr)
  let ?req = "session_request ?a ?v pw (cred_url repr ?a cred_id) None"
  have "FetchGet ?req \<in> set (trace (main repr w c getenv))"
    using ok ok5 fetch_inputs_call [of ?a ?v pw repr cred_id w]
    by (simp add: trace_main body_def Let_def in_then_run)
  moreover have "url ?req =
      fstr (awx_url ?a) @ ''/api/v2/credentials/'' @ py_str repr cred_id @ ''/''"
    by (simp add: session_request_def cred_url_def)
  ultimately show "\<exists>req. FetchGet req \<in> set (trace (main repr w c getenv))
      \<and> url req = fstr (awx_url ?a) @ ''/api/v2/credentials/'' @ py_str repr cred_id @ ''/''"
    by blast
qed

theorem first_match_wins_witness:
  "(\<exists>req. FetchGet req \<in> set (trace (main (\<lambda>_. [])
        (ex_world\<lparr>find_result := Inr (ok_response (JObj [(''results'',
           JArr [JObj [(''id'', JInt 7)], JObj [(''id'', JInt 8)]])]))\<rparr>)
        ex_cmdline (\<lambda>_. None)))
      \<and> url req = ''https://awx/api/v2/credentials/7/'')
   \<and> (\<exists>req. FetchGet req \<in> set (trace (main (\<lambda>_. [])
        (ex_world\<lparr>find_result := Inr (ok_response (JObj [(''results'',
           JArr [JObj [(''id'', JInt 8)], JObj [(''id'', JInt 7)]])]))\<rparr>)
        ex_cmdline (\<lambda>_. None)))
      \<and> url req = ''https://awx/api/v2/credentials/8/'')"
proof -
  let ?seven = "JObj [(''id'', JInt 7)]"
  let ?eight = "JObj [(''id'', JInt 8)]"
  let ?found = "ok_response (JObj [(''results'', JArr [?seven, ?eight])])"
  let ?found' = "ok_response (JObj [(''results'', JArr [?eight, ?seven])])"
  let ?w = "ex_world\<lparr>find_result := Inr ?found\<rparr>"
  let ?w' = "ex_world\<lparr>find_result := Inr ?found'\<rparr>"
  let ?find = "FindGet (ex_session ''https://awx/api/v2/credentials/?name=my-credential'' None)"
  have h1: "find_result ?w = Inr ?found" and h1': "find_result ?w' = Inr ?found'"
    by simp_all
  have h2: "results_of ?found = Inr (JArr (?seven # [?eight]))"
    and h2': "results_of ?found' = Inr (JArr (?eight # [?seven]))"
    by (simp_all add: results_of_def ok_response_def and_then_def py_get_def lookup_def)
  have f: "?find \<in> set (trace (main (\<lambda>_. []) ?w ex_cmdline (\<lambda>_. None)))"
    and f': "?find \<in> set (trace (main (\<lambda>_. []) ?w' ex_cmdline (\<lambda>_. None)))"
    by (simp_all add: run_defs ex_defs str_int_7 str_int_8)
  have i: "py_getitem ?seven ''id'' = Inr (JInt 7)" "py_getitem ?eight ''id'' = Inr (JInt 8)"
    by (simp_all add: py_getitem_def)
  have u: "fstr (awx_url (parse_args ex_cmdline (\<lambda>_. None))) = ''https://awx''"
    by (simp add: parse_args_def flag_or_env_def ex_cmdline_def fstr_def)
  from first_match_wins [OF h1 h2, where repr = "\<lambda>_. []" and c = ex_cmdline
      and getenv = "\<lambda>_. None", THEN conjunct2, rule_format, OF conjI [OF f i(1)]]
  have "\<exists>req. FetchGet req \<in> set (trace (main (\<lambda>_. []) ?w ex_cmdline (\<lambda>_. None)))
      \<and> url req = ''https://awx/api/v2/credentials/7/''"
    by (simp add: u py_str_def str_int_7)
  moreover
  from first_match_wins [OF h1' h2', where repr = "\<lambda>_. []" and c = ex_cmdline
      and getenv = "\<lambda>_. None", THEN conjunct2, rule_format, OF conjI [OF f' i(2)]]
  have "\<exists>req. FetchGet req \<in> set (trace (main (\<lambda>_. []) ?w' ex_cmdline (\<lambda>_. None)))
      \<and> url req = ''https://awx/api/v2/credentials/8/''"
    by (simp add: u py_str_def str_int_8)
  ultimately show ?thesis
    by blast
qed

subsection \<open>C8: a falsy secret value is treated as a missing one\<close>

lemma falsy_values:
  "\<not> truthy (JStr []) \<and> \<not> truthy (JInt 0) \<and> \<not> truthy (JBool False) \<and> \<not> truthy JNull
   \<and> \<not> truthy (JObj [])"
  by simp

text \<open>
  C8: when the secret has been read and the two-level lookup resolves to a falsy value,
  the run ends with exit status 1 on the failed-to-retrieve line of line 74; the whole
  run is the one that the same world gives when the secret document is empty (the path
  is missing entirely); and no update is submitted, so the value is never written.
\<close>

theorem falsy_secret_rejected:
  assumes "VaultRead path \<in> set (trace (main repr w c getenv))"
    and "read_secret_version_result w = Inr rr"
    and "secret_data_of rr = Inr sd"
    and "role_id_of (parse_args c getenv) sd = Inr val"
    and "\<not> truthy val"
  shows "exit_code (main repr w c getenv) = 1
       \<and> last (trace (main repr w c getenv)) =
           Print (FailedToRetrieve (fstr (key (parse_args c getenv)))
                    (fstr (subkey (parse_args c getenv))))
       \<and> main repr w c getenv =
           main repr (w\<lparr>read_secret_version_result :=
                          Inr (JObj [(''data'', JObj [(''data'', JObj [])])])\<rparr>) c getenv
       \<and> update_bodies (trace (main repr w c getenv)) = []"
proof -
  let ?a = "parse_args c getenv"
  let ?v = "\<not> no_verify_tls ?a"
  let ?w' = "w\<lparr>read_secret_version_result := Inr (JObj [(''data'', JObj [(''data'', JObj [])])])\<rparr>"
  let ?end = "[VaultRead (vault_secret ?a),
               Print (FailedToRetrieve (fstr (key ?a)) (fstr (subkey ?a)))]"
  from assms(1) obtain pw where ok:
    "snd (check_required ?a required) = Inr ()"
    "snd (login_pass w ?a) = Inr pw"
    "snd (vault_login w ?a ?v pw) = Inr ()"
    unfolding trace_main by (blast dest: reach_read)
  have same: "login_pass ?w' ?a = login_pass w ?a"
    "vault_login ?w' ?a ?v pw = vault_login w ?a ?v pw"
    by (simp_all add: login_pass_def ask_password_def vault_login_def Let_def
        split: option.splits sum.splits)
  have rs: "read_secret w ?a = (?end, Inl 1)"
    using assms(2-5) by (simp add: read_secret_def and_then_def)
  have "role_id_of ?a (JObj []) = Inr JNull"
    by (simp add: role_id_of_def py_get_def lookup_def and_then_def split: option.splits)
  then have rs': "read_secret ?w' ?a = (?end, Inl 1)"
    by (simp add: read_secret_def and_then_def secret_data_of_def py_getitem_def)
  have b: "body repr w ?a =
      (fst (login_pass w ?a) @
         [VaultLogin (vault_addr ?a) ?v (username ?a) pw, VaultIsAuthenticated] @ ?end, Inl 1)"
    using ok rs
    by (simp add: body_def Let_def then_run_unfold check_required_Inr_fst vault_login_Inr_fst)
  have b': "body repr ?w' ?a = body repr w ?a"
    unfolding b using ok rs' same
    by (simp add: body_def Let_def then_run_unfold check_required_Inr_fst vault_login_Inr_fst)
  from login_pass_fst [OF ok(2)] b b' show ?thesis
    by (auto simp: main_def finish_def update_bodies_def)
qed

theorem falsy_secret_rejected_witness:
  "exit_code (main (\<lambda>_. []) (ex_world\<lparr>read_secret_version_result :=
       Inr (JObj [(''data'', JObj [(''data'',
          JObj [(''credentials'', JObj [(''role_id'', JStr [])])])])])\<rparr>)
       ex_cmdline (\<lambda>_. None)) = 1
   \<and> last (trace (main (\<lambda>_. []) (ex_world\<lparr>read_secret_version_result :=
       Inr (JObj [(''data'', JObj [(''data'',
          JObj [(''credentials'', JObj [(''role_id'', JStr [])])])])])\<rparr>)
       ex_cmdline (\<lambda>_. None))) = Print (FailedToRetrieve ''credentials'' ''role_id'')
   \<and> main (\<lambda>_. []) (ex_world\<lparr>read_secret_version_result :=
       Inr (JObj [(''data'', JObj [(''data'',
          JObj [(''credentials'', JObj [(''role_id'', JStr [])])])])])\<rparr>)
       ex_cmdline (\<lambda>_. None) =
     main (\<lambda>_. []) (ex_world\<lparr>read_secret_version_result :=
       Inr (JObj [(''data'', JObj [(''data'',
          JObj [(''credentials'', JObj [(''role_id'', JStr [])])])])]),
       read_secret_version_result :=
       Inr (JObj [(''data'', JObj [(''data'', JObj [])])])\<rparr>) ex_cmdline (\<lambda>_. None)
   \<and> update_bodies (trace (main (\<lambda>_. []) (ex_world\<lparr>read_secret_version_result :=
       Inr (JObj [(''data'', JObj [(''data'',
          JObj [(''credentials'', JObj [(''role_id'', JStr [])])])])])\<rparr>)
       ex_cmdline (\<lambda>_. None))) = []"
proof -
  let ?rr = "JObj [(''data'', JObj [(''data'',
          JObj [(''credentials'', JObj [(''role_id'', JStr [])])])])]"
  let ?w = "ex_world\<lparr>read_secret_version_result := Inr ?rr\<rparr>"
  have h1: "VaultRead (Some ''secret/user1'') \<in> set (trace (main (\<lambda>_. []) ?w ex_cmdline (\<lambda>_. None)))"
    by (simp add: run_defs ex_defs)
  have h2: "read_secret_version_result ?w = Inr ?rr"
    by simp
  have h3: "secret_data_of ?rr = Inr (JObj [(''credentials'', JObj [(''role_id'', JStr [])])])"
    by (simp add: secret_data_of_def and_then_def py_getitem_def)
  have h4: "role_id_of (parse_args ex_cmdline (\<lambda>_. None))
      (JObj [(''credentials'', JObj [(''role_id'', JStr [])])]) = Inr (JStr [])"
    by (simp add: role_id_of_def and_then_def py_get_def lookup_def parse_args_def
        flag_or_env_def ex_cmdline_def)
  have h5: "\<not> truthy (JStr [])"
    by simp
  have k: "fstr (key (parse_args ex_cmdline (\<lambda>_. None))) = ''credentials''"
    "fstr (subkey (parse_args ex_cmdline (\<lambda>_. None))) = ''role_id''"
    by (simp_all add: parse_args_def flag_or_env_def ex_cmdline_def fstr_def)
  from falsy_secret_rejected [OF h1 h2 h3 h4 h5, unfolded k] show ?thesis .
qed

subsection \<open>C9: the password\<close>

text \<open>
  C9 says that a run without interaction can never use an empty password. The script
  takes whatever \<^verbatim>\<open>getpass\<close> returns (line 55 does not test it): with the password
  supplied as the empty string and a prompt that is answered with an empty line (which
  \<^verbatim>\<open>getpass\<close> also reads from a standard input that is not a terminal), the run logs
  in to Vault with the empty password, calls AWX with it, and ends with status 0.
\<close>

theorem empty_password_counterexample:
  "password (parse_args (ex_cmdline\<lparr>opt_password := Some []\<rparr>) (\<lambda>_. None)) = Some []
   \<and> trace (main (\<lambda>_. []) (ex_world\<lparr>getpass_result := Inr []\<rparr>)
        (ex_cmdline\<lparr>opt_password := Some []\<rparr>) (\<lambda>_. None)) =
     [Getpass ''Enter Vault userpass password for alice: '',
      VaultLogin (Some ''https://vault'') True (Some ''alice'') [],
      VaultIsAuthenticated,
      VaultRead (Some ''secret/user1''),
      Print RetrievedRoleId,
      FindGet (ex_session ''https://awx/api/v2/credentials/?name=my-credential'' None
        \<lparr>auth := (Some ''alice'', [])\<rparr>),
      Print (FoundCredential ''my-credential'' (JInt 7)),
      FetchGet (ex_session ''https://awx/api/v2/credentials/7/'' None
        \<lparr>auth := (Some ''alice'', [])\<rparr>),
      UpdatePatch (ex_session ''https://awx/api/v2/credentials/7/''
        (Some (JObj [(''inputs'',
           JObj [(''a'', JInt 1), (''b'', JInt 2), (''role_id'', JStr ''X'')])]))
        \<lparr>auth := (Some ''alice'', [])\<rparr>),
      Print (UpdateSucceeded ''my-credential'' (JInt 7))]
   \<and> exit_code (main (\<lambda>_. []) (ex_world\<lparr>getpass_result := Inr []\<rparr>)
        (ex_cmdline\<lparr>opt_password := Some []\<rparr>) (\<lambda>_. None)) = 0"
  by (simp add: run_defs ex_defs str_int_7)

text \<open>
  C9, amended. With every required parameter present: if the password is absent or the
  empty string, the run prompts, and logs in to Vault with whatever the prompt returns
  (which may be empty); if the password is supplied and not empty, the run does not
  prompt and logs in to Vault with it. In every run, a login made without a prompt uses
  the supplied password, which is then not empty; a login made after a prompt uses what
  the prompt returned; the login is made under \<^verbatim>\<open>args.username\<close>, and every call to
  AWX carries the basic-auth pair of that user name and the password of the login.
\<close>

theorem password_resolution:
  "((\<forall>(p, f) \<in> set required. f (parse_args c getenv) \<noteq> None)
      \<and> (password (parse_args c getenv) = None \<or> password (parse_args c getenv) = Some [])
      \<longrightarrow> Getpass (prompt_text (parse_args c getenv)) \<in> set (trace (main repr w c getenv))
          \<and> (\<forall>pw. getpass_result w = Inr pw \<longrightarrow>
                VaultLogin (vault_addr (parse_args c getenv))
                  (\<not> no_verify_tls (parse_args c getenv))
                  (username (parse_args c getenv)) pw \<in> set (trace (main repr w c getenv))))
   \<and> (\<forall>p. (\<forall>(n, f) \<in> set required. f (parse_args c getenv) \<noteq> None)
         \<and> password (parse_args c getenv) = Some p \<and> p \<noteq> []
      \<longrightarrow> (\<forall>q. Getpass q \<notin> set (trace (main repr w c getenv)))
          \<and> VaultLogin (vault_addr (parse_args c getenv))
               (\<not> no_verify_tls (parse_args c getenv))
               (username (parse_args c getenv)) p \<in> set (trace (main repr w c getenv)))
   \<and> (\<forall>va v u pw. VaultLogin va v u pw \<in> set (trace (main repr w c getenv)) \<longrightarrow>
         (if Getpass (prompt_text (parse_args c getenv)) \<in> set (trace (main repr w c getenv))
          then getpass_result w = Inr pw
          else password (parse_args c getenv) = Some pw \<and> pw \<noteq> [])
         \<and> u = username (parse_args c getenv)
         \<and> (\<forall>req. FindGet req \<in> set (trace (main repr w c getenv))
                  \<or> FetchGet req \<in> set (trace (main repr w c getenv))
                  \<or> UpdatePatch req \<in> set (trace (main repr w c getenv))
                \<longrightarrow> auth req = (u, pw)))"
proof -
  let ?a = "parse_args c getenv"
  let ?v = "\<not> no_verify_tls ?a"
  let ?t = "trace (main repr w c getenv)"
  have login_made: "VaultLogin (vault_addr ?a) ?v (username ?a) pw \<in> set ?t"
    if "snd (check_required ?a required) = Inr ()" and "snd (login_pass w ?a) = Inr pw" for pw
    using that vault_login_call [of ?a ?v pw w]
    by (simp add: trace_main body_def Let_def in_then_run)
  have absent: "Getpass (prompt_text ?a) \<in> set ?t
      \<and> (\<forall>pw. getpass_result w = Inr pw \<longrightarrow> VaultLogin (vault_addr ?a) ?v (username ?a) pw \<in> set ?t)"
    if "(\<forall>(p, f) \<in> set required. f ?a \<noteq> None) \<and> (password ?a = None \<or> password ?a = Some [])"
  proof -
    from that have ok: "snd (check_required ?a required) = Inr ()"
      and g: "Getpass (prompt_text ?a) \<in> set (fst (login_pass w ?a))"
      and l: "\<And>pw. getpass_result w = Inr pw \<Longrightarrow> snd (login_pass w ?a) = Inr pw"
      by (auto simp: check_required_Inr login_pass_def ask_password_def split: sum.splits)
    from ok g have "Getpass (prompt_text ?a) \<in> set ?t"
      by (simp add: trace_main body_def Let_def in_then_run)
    moreover have "VaultLogin (vault_addr ?a) ?v (username ?a) pw \<in> set ?t"
      if "getpass_result w = Inr pw" for pw
      using ok l [OF that] by (rule login_made)
    ultimately show ?thesis
      by simp
  qed
  have supplied: "(\<forall>q. Getpass q \<notin> set ?t) \<and> VaultLogin (vault_addr ?a) ?v (username ?a) p \<in> set ?t"
    if "(\<forall>(n, f) \<in> set required. f ?a \<noteq> None) \<and> password ?a = Some p \<and> p \<noteq> []" for p
  proof -
    from that have ok: "snd (check_required ?a required) = Inr ()"
      and l: "login_pass w ?a = ([], Inr p)"
      by (auto simp: check_required_Inr login_pass_def)
    from l have "Getpass q \<notin> set ?t" for q
      unfolding trace_main by (auto dest: getpass_in_body)
    moreover from ok l have "VaultLogin (vault_addr ?a) ?v (username ?a) p \<in> set ?t"
      by (simp add: login_made)
    ultimately show ?thesis
      by blast
  qed
  have used: "(if Getpass (prompt_text ?a) \<in> set ?t then getpass_result w = Inr pw
        else password ?a = Some pw \<and> pw \<noteq> [])
      \<and> u = username ?a
      \<and> (\<forall>req. FindGet req \<in> set ?t \<or> FetchGet req \<in> set ?t \<or> UpdatePatch req \<in> set ?t
            \<longrightarrow> auth req = (u, pw))"
    if login: "VaultLogin va v u pw \<in> set ?t" for va v u pw
  proof -
    from login have ok: "snd (check_required ?a required) = Inr ()"
      "snd (login_pass w ?a) = Inr pw" and u: "u = username ?a"
      unfolding trace_main by (auto dest: reach_login)
    have "Getpass (prompt_text ?a) \<in> set ?t"
      if "Getpass (prompt_text ?a) \<in> set (fst (login_pass w ?a))"
      using ok that by (simp add: trace_main body_def Let_def in_then_run)
    then have prompted: "Getpass (prompt_text ?a) \<in> set ?t \<longleftrightarrow>
        Getpass (prompt_text ?a) \<in> set (fst (login_pass w ?a))"
      unfolding trace_main by (auto dest: getpass_in_body)
    from login_pass_Inr [OF ok(2)]
    have "if Getpass (prompt_text ?a) \<in> set ?t then getpass_result w = Inr pw
        else password ?a = Some pw \<and> pw \<noteq> []"
      unfolding prompted by auto
    moreover have "auth req = (u, pw)"
      if "FindGet req \<in> set ?t \<or> FetchGet req \<in> set ?t \<or> UpdatePatch req \<in> set ?t" for req
    proof -
      from that obtain pw' x j where "snd (login_pass w ?a) = Inr pw'"
        and "req = session_request ?a ?v pw' x j"
        unfolding trace_main by (blast dest: reach_find reach_fetch reach_update)
      with ok(2) u show ?thesis
        by (simp add: session_request_def)
    qed
    ultimately show ?thesis
      using u by simp
  qed
  have part1: "(\<forall>(p, f) \<in> set required. f ?a \<noteq> None)
        \<and> (password ?a = None \<or> password ?a = Some [])
      \<longrightarrow> Getpass (prompt_text ?a) \<in> set ?t
          \<and> (\<forall>pw. getpass_result w = Inr pw \<longrightarrow>
                VaultLogin (vault_addr ?a) ?v (username ?a) pw \<in> set ?t)"
    by (intro impI) (rule absent)
  have part2: "\<forall>p. (\<forall>(n, f) \<in> set required. f ?a \<noteq> None) \<and> password ?a = Some p \<and> p \<noteq> []
      \<longrightarrow> (\<forall>q. Getpass q \<notin> set ?t) \<and> VaultLogin (vault_addr ?a) ?v (username ?a) p \<in> set ?t"
    by (intro allI impI) (rule supplied)
  have part3: "\<forall>va v u pw. VaultLogin va v u pw \<in> set ?t \<longrightarrow>
      (if Getpass (prompt_text ?a) \<in> set ?t then getpass_result w = Inr pw
       else password ?a = Some pw \<and> pw \<noteq> [])
      \<and> u = username ?a
      \<and> (\<forall>req. FindGet req \<in> set ?t \<or> FetchGet req \<in> set ?t \<or> UpdatePatch req \<in> set ?t
            \<longrightarrow> auth req = (u, pw))"
    by (intro allI impI) (rule used)
  from part1 part2 part3 show ?thesis
    by (intro conjI)
qed

theorem password_resolution_witness:
  "Getpass ''Enter Vault userpass password for alice: ''
     \<in> set (trace (main (\<lambda>_. []) ex_world (ex_cmdline\<lparr>opt_password := Some []\<rparr>) (\<lambda>_. None)))
   \<and> VaultLogin (Some ''https://vault'') True (Some ''alice'') ''typed''
     \<in> set (trace (main (\<lambda>_. []) ex_world (ex_cmdline\<lparr>opt_password := Some []\<rparr>) (\<lambda>_. None)))
   \<and> (\<forall>q. Getpass q \<notin> set (trace (main (\<lambda>_. []) ex_world ex_cmdline (\<lambda>_. None))))
   \<and> VaultLogin (Some ''https://vault'') True (Some ''alice'') ''pw''
     \<in> set (trace (main (\<lambda>_. []) ex_world ex_cmdline (\<lambda>_. None)))
   \<and> auth (ex_session ''https://awx/api/v2/credentials/7/''
        (Some (JObj [(''inputs'',
           JObj [(''a'', JInt 1), (''b'', JInt 2), (''role_id'', JStr ''X'')])]))) =
       (Some ''alice'', ''pw'')"
proof -
  let ?c = "ex_cmdline\<lparr>opt_password := Some []\<rparr>"
  let ?t = "trace (main (\<lambda>_. []) ex_world ex_cmdline (\<lambda>_. None))"
  let ?req = "ex_session ''https://awx/api/v2/credentials/7/''
        (Some (JObj [(''inputs'',
           JObj [(''a'', JInt 1), (''b'', JInt 2), (''role_id'', JStr ''X'')])]))"
  have a: "(\<forall>(p, f) \<in> set required. f (parse_args ?c (\<lambda>_. None)) \<noteq> None)
      \<and> (password (parse_args ?c (\<lambda>_. None)) = None \<or> password (parse_args ?c (\<lambda>_. None)) = Some [])"
    by (simp add: required_def parse_args_def flag_or_env_def ex_cmdline_def)
  have b: "(\<forall>(n, f) \<in> set required. f (parse_args ex_cmdline (\<lambda>_. None)) \<noteq> None)
      \<and> password (parse_args ex_cmdline (\<lambda>_. None)) = Some ''pw'' \<and> ''pw'' \<noteq> []"
    by (simp add: required_def parse_args_def flag_or_env_def ex_cmdline_def)
  have g: "getpass_result ex_world = Inr ''typed''"
    by (simp add: ex_world_def)
  have p: "prompt_text (parse_args ?c (\<lambda>_. None)) = ''Enter Vault userpass password for alice: ''"
    by (simp add: prompt_text_def parse_args_def flag_or_env_def ex_cmdline_def fstr_def)
  have k: "vault_addr (parse_args ?c (\<lambda>_. None)) = Some ''https://vault''"
    "no_verify_tls (parse_args ?c (\<lambda>_. None)) = False"
    "username (parse_args ?c (\<lambda>_. None)) = Some ''alice''"
    "vault_addr (parse_args ex_cmdline (\<lambda>_. None)) = Some ''https://vault''"
    "no_verify_tls (parse_args ex_cmdline (\<lambda>_. None)) = False"
    "username (parse_args ex_cmdline (\<lambda>_. None)) = Some ''alice''"
    by (simp_all add: parse_args_def flag_or_env_def ex_cmdline_def)
  have q: "FindGet ?req \<in> set ?t \<or> FetchGet ?req \<in> set ?t \<or> UpdatePatch ?req \<in> set ?t"
    by (simp add: ex_run)
  note prompting = password_resolution [where c = ?c and getenv = "\<lambda>_. None"
      and repr = "\<lambda>_. []" and w = ex_world, THEN conjunct1, THEN mp, OF a, unfolded p k]
  note plain = password_resolution [where c = ex_cmdline and getenv = "\<lambda>_. None"
      and repr = "\<lambda>_. []" and w = ex_world, THEN conjunct2]
  note supplied = plain [THEN conjunct1, THEN spec, THEN mp, OF b, unfolded k]
  have l: "VaultLogin (Some ''https://vault'') True (Some ''alice'') ''pw'' \<in> set ?t"
    using supplied by simp
  note used = plain [THEN conjunct2, THEN spec, THEN spec, THEN spec, THEN spec, THEN mp, OF l]
  have "auth ?req = (Some ''alice'', ''pw'')"
    using used [THEN conjunct2, THEN conjunct2, THEN spec, THEN mp, OF q] .
  moreover have "VaultLogin (Some ''https://vault'') True (Some ''alice'') ''typed''
      \<in> set (trace (main (\<lambda>_. []) ex_world ?c (\<lambda>_. None)))"
    using prompting [THEN conjunct2, THEN spec, THEN mp, OF g] by simp
  moreover note prompting [THEN conjunct1] supplied
  ultimately show ?thesis
    by simp
qed

subsection \<open>C10: a record without inputs\<close>

text \<open>
  C10: when the fetch is made and answers with a document that has no \<^verbatim>\<open>inputs\<close>
  key, the run goes on: exactly one update is submitted, its body is
  \<^verbatim>\<open>{"inputs": {"role_id": v}}\<close> for the value \<open>v\<close> retrieved from Vault, and the exit
  status is 0.
\<close>

theorem missing_inputs_default:
  assumes "FetchGet req \<in> set (trace (main repr w c getenv))"
    and "fetch_result w = Inr fetched"
    and "raise_for_status fetched = None"
    and "json_body fetched = Inr (JObj doc)"
    and "map_of doc ''inputs'' = None"
  shows "\<exists>rr sd rid. read_secret_version_result w = Inr rr \<and> secret_data_of rr = Inr sd
           \<and> role_id_of (parse_args c getenv) sd = Inr rid
           \<and> update_bodies (trace (main repr w c getenv)) =
               [Some (JObj [(''inputs'', JObj [(''role_id'', rid)])])]
           \<and> exit_code (main repr w c getenv) = 0"
proof -
  let ?a = "parse_args c getenv"
  let ?v = "\<not> no_verify_tls ?a"
  from assms(1) obtain pw rid cid where ok:
    "snd (check_required ?a required) = Inr ()"
    "snd (login_pass w ?a) = Inr pw"
    "snd (vault_login w ?a ?v pw) = Inr ()"
    "snd (read_secret w ?a) = Inr rid"
    "snd (find_credential w ?a ?v pw) = Inr cid"
    unfolding trace_main by (blast dest: reach_fetch)
  from ok(4) obtain rr sd where rd: "read_secret_version_result w = Inr rr"
    "secret_data_of rr = Inr sd" "role_id_of ?a sd = Inr rid"
    by (auto simp: read_secret_Inr)
  have "current_inputs_of fetched = Inr (JObj [])"
    using assms(3-5) by (simp add: current_inputs_of_def and_then_def py_get_def lookup_def)
  then have ok6: "snd (fetch_inputs repr w ?a ?v pw cid) = Inr (JObj [])"
    using assms(2) by (simp add: fetch_inputs_Inr)
  have "\<exists>m. update_role_id repr w ?a ?v pw rid cid (JObj []) =
      ([UpdatePatch (session_request ?a ?v pw (cred_url repr ?a cid)
          (Some (JObj [(''inputs'', JObj [(''role_id'', rid)])]))), Print m], Inr ())"
  proof (cases "patch_result w")
    case (Inl e)
    then show ?thesis
      by (simp add: update_role_id_def py_setitem_def)
  next
    case (Inr patched)
    then show ?thesis
      by (cases "status_code patched = 200 \<or> status_code patched = 202")
        (simp_all add: update_role_id_def py_setitem_def)
  qed
  then obtain m where u: "update_role_id repr w ?a ?v pw rid cid (JObj []) =
      ([UpdatePatch (session_request ?a ?v pw (cred_url repr ?a cid)
          (Some (JObj [(''inputs'', JObj [(''role_id'', rid)])]))), Print m], Inr ())" ..
  have e: "snd (body repr w ?a) = Inr ()"
    using ok ok6 u by (simp add: body_def Let_def snd_then_run)
  have t: "fst (body repr w ?a) =
      fst (login_pass w ?a) @
        [VaultLogin (vault_addr ?a) ?v (username ?a) pw, VaultIsAuthenticated,
         VaultRead (vault_secret ?a), Print RetrievedRoleId,
         FindGet (session_request ?a ?v pw (find_url ?a) None),
         Print (FoundCredential (fstr (cred_name ?a)) cid),
         FetchGet (session_request ?a ?v pw (cred_url repr ?a cid) None),
         UpdatePatch (session_request ?a ?v pw (cred_url repr ?a cid)
           (Some (JObj [(''inputs'', JObj [(''role_id'', rid)])]))), Print m]"
    using ok ok6 u
    by (simp add: body_def Let_def fst_then_run check_required_Inr_fst vault_login_Inr_fst
        read_secret_Inr_fst find_credential_Inr_fst fetch_inputs_Inr_fst)
  have "update_bodies (fst (body repr w ?a)) =
      [Some (JObj [(''inputs'', JObj [(''role_id'', rid)])])]"
    using login_pass_fst [OF ok(2)] unfolding t
    by (auto simp: update_bodies_def session_request_def)
  with rd e show ?thesis
    by (simp add: main_def finish_def)
qed

theorem missing_inputs_default_witness:
  "\<exists>rr sd rid. read_secret_version_result
        (ex_world\<lparr>fetch_result := Inr (ok_response (JObj [(''id'', JInt 7)]))\<rparr>) = Inr rr
     \<and> secret_data_of rr = Inr sd
     \<and> role_id_of (parse_args ex_cmdline (\<lambda>_. None)) sd = Inr rid
     \<and> update_bodies (trace (main (\<lambda>_. [])
          (ex_world\<lparr>fetch_result := Inr (ok_response (JObj [(''id'', JInt 7)]))\<rparr>)
          ex_cmdline (\<lambda>_. None))) =
         [Some (JObj [(''inputs'', JObj [(''role_id'', rid)])])]
     \<and> exit_code (main (\<lambda>_. [])
          (ex_world\<lparr>fetch_result := Inr (ok_response (JObj [(''id'', JInt 7)]))\<rparr>)
          ex_cmdline (\<lambda>_. None)) = 0"
proof -
  let ?w = "ex_world\<lparr>fetch_result := Inr (ok_response (JObj [(''id'', JInt 7)]))\<rparr>"
  have h1: "FetchGet (ex_session ''https://awx/api/v2/credentials/7/'' None)
      \<in> set (trace (main (\<lambda>_. []) ?w ex_cmdline (\<lambda>_. None)))"
    by (simp add: run_defs ex_defs str_int_7)
  have h2: "fetch_result ?w = Inr (ok_response (JObj [(''id'', JInt 7)]))"
    by simp
  have h3: "raise_for_status (ok_response (JObj [(''id'', JInt 7)])) = None"
    and h4: "json_body (ok_response (JObj [(''id'', JInt 7)])) = Inr (JObj [(''id'', JInt 7)])"
    by (simp_all add: ok_response_def)
  have h5: "map_of [(''id'', JInt 7)] ''inputs'' = None"
    by simp
  from missing_inputs_default [OF h1 h2 h3 h4 h5] show ?thesis .
qed

end
